theory Spec2Isabelle
  imports Main "HOL-Library.Word" "HOL-Library.Multiset"
begin

section \<open>Strings: the JavaScript primitives used by \<^verbatim>\<open>poc.js\<close>\<close>

text \<open>
  JavaScript strings are modelled as \<^typ>\<open>string\<close>. Every string handled by the
  proof of concept is made of ASCII hexadecimal digits, so that the length in UTF-16 code
  units is the length of the character list.
\<close>

text \<open>
  \<^verbatim>\<open>String.prototype.padStart(targetLength, padString)\<close>: the receiver is returned
  as it is when it already has the target length or when the filler is empty; otherwise
  the filler, repeated and cut to the missing length, is put in front.
\<close>

definition padStart :: "nat \<Rightarrow> string \<Rightarrow> string \<Rightarrow> string" where
  "padStart targetLength padString s =
     (if targetLength \<le> length s \<or> padString = [] then s
      else take (targetLength - length s)
             (concat (replicate (targetLength - length s) padString)) @ s)"

text \<open>
  \<^verbatim>\<open>function pad32ByteHex(hex) { return hex.padStart(64, 0); }\<close>
  The filler \<^verbatim>\<open>0\<close> is a number; \<^verbatim>\<open>padStart\<close> converts it to the string
  \<^verbatim>\<open>"0"\<close>.
\<close>

definition pad32ByteHex :: "string \<Rightarrow> string" where
  "pad32ByteHex hex = padStart 64 ''0'' hex"

section \<open>Hexadecimal digits\<close>

text \<open>
  The value of one hexadecimal character, as \<^verbatim>\<open>parseHex4Bits\<close> of bn.js reads it:
  \<^verbatim>\<open>'0'..'9'\<close>, \<^verbatim>\<open>'A'..'F'\<close> and \<^verbatim>\<open>'a'..'f'\<close>; any other character is
  rejected.
\<close>

definition hexValue :: "char \<Rightarrow> nat option" where
  "hexValue c =
     (let k = (of_char c :: nat) in
      if 48 \<le> k \<and> k \<le> 57 then Some (k - 48)
      else if 65 \<le> k \<and> k \<le> 70 then Some (k - 55)
      else if 97 \<le> k \<and> k \<le> 102 then Some (k - 87)
      else None)"

definition isHexDigit :: "char \<Rightarrow> bool" where
  "isHexDigit c = (hexValue c \<noteq> None)"

definition isHex :: "string \<Rightarrow> bool" where
  "isHex s = list_all isHexDigit s"

text \<open>The digit written for a value below 16 (lower case, as JavaScript prints it).\<close>

definition hexDigit :: "nat \<Rightarrow> char" where
  "hexDigit d = ''0123456789abcdef'' ! d"


section \<open>bn.js: arbitrary-precision integers\<close>

text \<open>
  A \<^verbatim>\<open>BN\<close> is an unbounded integer, modelled as \<^typ>\<open>int\<close>.
\<close>

datatype error =
    RecoveryMismatch
  | CoordinatesIncorrectlyGenerated
  | PointNotOnCurve
  | KeyMismatch
  | InvalidCharacter
  | InvalidBigNumberString
  | DivisionByZero
  | PointAtInfinity
  | InvalidPublicKeyFormat
  | UnsupportedIdentifier
  | IdentifierNotResolved
  | NotRegistered string
  | NoHistory
  | InvalidTransactionHash
  | TransactionNotFound

text \<open>Sequencing of computations that may throw: the first error is the result.\<close>

definition bindE :: "error + 'a \<Rightarrow> ('a \<Rightarrow> error + 'b) \<Rightarrow> error + 'b" where
  "bindE m f = (case m of Inl e \<Rightarrow> Inl e | Inr x \<Rightarrow> f x)"

fun parseHexDigits :: "int \<Rightarrow> string \<Rightarrow> int option" where
  "parseHexDigits acc [] = Some acc"
| "parseHexDigits acc (c # cs) =
     (case hexValue c of
        None \<Rightarrow> None
      | Some d \<Rightarrow> parseHexDigits (acc * 16 + int d) cs)"

text \<open>
  \<^verbatim>\<open>new BN(str, 16)\<close>: an optional leading minus sign, then hexadecimal digits read
  most significant first; the empty string is zero; a character that is not a
  hexadecimal digit fails the library's assertion. (bn.js removes white space first;
  the strings of the proof of concept contain none.)
\<close>

definition BN_fromHex :: "string \<Rightarrow> error + int" where
  "BN_fromHex s =
     (if s \<noteq> [] \<and> hd s = CHR ''-'' then
        (case parseHexDigits 0 (tl s) of
           None \<Rightarrow> Inl InvalidCharacter
         | Some k \<Rightarrow> Inr (- k))
      else
        (case parseHexDigits 0 s of
           None \<Rightarrow> Inl InvalidCharacter
         | Some k \<Rightarrow> Inr k))"

function hexDigits :: "int \<Rightarrow> string" where
  "hexDigits k =
     (if k < 16 then [hexDigit (nat k)]
      else hexDigits (k div 16) @ [hexDigit (nat (k mod 16))])"
  by pat_completeness auto
termination
  by (relation "measure nat") auto

text \<open>
  \<^verbatim>\<open>bn.toString('hex')\<close>: the shortest hexadecimal writing, without leading zeros
  (\<^verbatim>\<open>"0"\<close> for zero), with a minus sign in front of a negative number.
\<close>

definition BN_toString16 :: "int \<Rightarrow> string" where
  "BN_toString16 k = (if k < 0 then CHR ''-'' # hexDigits (- k) else hexDigits k)"


section \<open>Byte arrays\<close>

type_synonym bytes = "8 word list"

definition byteToHex :: "8 word \<Rightarrow> string" where
  "byteToHex b = [hexDigit (unat b div 16), hexDigit (unat b mod 16)]"

text \<open>\<^verbatim>\<open>buf.toString('hex')\<close>, and the digits of ethers' \<^verbatim>\<open>hexlify\<close>.\<close>

definition bytesToHex :: "bytes \<Rightarrow> string" where
  "bytesToHex bs = concat (map byteToHex bs)"

text \<open>
  \<^verbatim>\<open>new Buffer(str, 'hex')\<close> (package \<^verbatim>\<open>buffer\<close>): the string is read two
  characters at a time, each pair giving one byte; reading stops at the first pair that is
  not two hexadecimal digits, and a last single character is dropped.
\<close>

fun Buffer_fromHex :: "string \<Rightarrow> bytes" where
  "Buffer_fromHex (a # b # rest) =
     (case hexValue a of
        None \<Rightarrow> []
      | Some x \<Rightarrow>
          (case hexValue b of
             None \<Rightarrow> []
           | Some y \<Rightarrow> word_of_nat (16 * x + y) # Buffer_fromHex rest))"
| "Buffer_fromHex [a] = []"
| "Buffer_fromHex [] = []"

text \<open>\<^verbatim>\<open>buf.slice(-k)\<close>: the last \<open>k\<close> bytes (all of them when there are fewer).\<close>

definition sliceLast :: "nat \<Rightarrow> bytes \<Rightarrow> bytes" where
  "sliceLast k buf = drop (length buf - k) buf"

text \<open>The big-endian value of a byte array.\<close>

definition bigEndian :: "bytes \<Rightarrow> int" where
  "bigEndian bs = foldl (\<lambda>acc b. acc * 256 + uint b) 0 bs"


section \<open>ethers: \<^verbatim>\<open>BigNumber\<close>\<close>

text \<open>
  A \<^verbatim>\<open>BigNumber\<close> of ethers (version 5) is an object that holds one field, the string
  \<^verbatim>\<open>_hex\<close>; \<^verbatim>\<open>toHexString()\<close> returns it. Every \<^verbatim>\<open>BigNumber\<close> of
  \<^verbatim>\<open>poc.js\<close> comes from an unsigned \<^verbatim>\<open>0x\<close> string, from a byte array, or from a
  product or a remainder of such numbers, so only the unsigned branch of the
  library is modelled.
\<close>

datatype BigNumber = BigNumber (toHexString: string)

text \<open>
  The loop of \<^verbatim>\<open>toHex\<close> that removes leading zero bytes,
  \<^verbatim>\<open>while (value.length > 4 && value.substring(0, 4) === "0x00") value = "0x" + value.substring(4)\<close>,
  on the digits that follow \<^verbatim>\<open>0x\<close>.
\<close>

fun stripZeroBytes :: "string \<Rightarrow> string" where
  "stripZeroBytes (a # b # rest) =
     (if a = CHR ''0'' \<and> b = CHR ''0'' \<and> rest \<noteq> [] then stripZeroBytes rest
      else a # b # rest)"
| "stripZeroBytes [a] = [a]"
| "stripZeroBytes [] = []"

text \<open>
  \<^verbatim>\<open>toHex(value)\<close> on a string without sign: the prefix \<^verbatim>\<open>0x\<close> is added when it is
  missing, \<^verbatim>\<open>"0x"\<close> alone becomes \<^verbatim>\<open>"0x00"\<close>, an odd number of digits gets one
  leading zero, and leading zero bytes are removed.
\<close>

definition toHex :: "string \<Rightarrow> string" where
  "toHex v =
     (let v1 = (if take 2 v \<noteq> ''0x'' then ''0x'' @ v else v) in
      if v1 = ''0x'' then ''0x00''
      else
        (let v2 = (if odd (length v1) then ''0x0'' @ drop 2 v1 else v1)
         in ''0x'' @ stripZeroBytes (drop 2 v2)))"

text \<open>
  \<^verbatim>\<open>BigNumber.from(value)\<close> on a string: accepted when it matches
  \<^verbatim>\<open>/^0x[0-9a-f]+$/i\<close>. (The library also accepts a minus sign and decimal strings;
  \<^verbatim>\<open>poc.js\<close> passes strings that start with \<^verbatim>\<open>0x\<close> only.)
\<close>

definition BigNumber_from :: "string \<Rightarrow> error + BigNumber" where
  "BigNumber_from v =
     (if take 2 v = ''0x'' \<and> drop 2 v \<noteq> [] \<and> isHex (drop 2 v)
      then Inr (BigNumber (toHex v))
      else Inl InvalidBigNumberString)"

text \<open>\<^verbatim>\<open>hexlify(array)\<close>: \<^verbatim>\<open>0x\<close> and two digits for each byte.\<close>

definition hexlify :: "bytes \<Rightarrow> string" where
  "hexlify arr = ''0x'' @ bytesToHex arr"

text \<open>\<^verbatim>\<open>BigNumber.from(array)\<close> is \<^verbatim>\<open>BigNumber.from(hexlify(array))\<close>.\<close>

definition BigNumber_fromBytes :: "bytes \<Rightarrow> error + BigNumber" where
  "BigNumber_fromBytes arr = BigNumber_from (hexlify arr)"

text \<open>\<^verbatim>\<open>toBN(value)\<close>: \<^verbatim>\<open>new BN(hex.substring(2), 16)\<close>.\<close>

definition toBN :: "BigNumber \<Rightarrow> error + int" where
  "toBN b = BN_fromHex (drop 2 (toHexString b))"

text \<open>\<^verbatim>\<open>toBigNumber(bn)\<close>: \<^verbatim>\<open>BigNumber.from(toHex(bn.toString(16)))\<close>.\<close>

definition toBigNumber :: "int \<Rightarrow> error + BigNumber" where
  "toBigNumber k = BigNumber_from (toHex (BN_toString16 k))"

text \<open>\<^verbatim>\<open>a.mul(b)\<close>: \<^verbatim>\<open>toBigNumber(toBN(a).mul(toBN(b)))\<close>.\<close>

definition BigNumber_mul :: "BigNumber \<Rightarrow> BigNumber \<Rightarrow> error + BigNumber" where
  "BigNumber_mul a b =
     bindE (toBN a) (\<lambda>x. bindE (toBN b) (\<lambda>y. toBigNumber (x * y)))"

text \<open>
  \<^verbatim>\<open>a.mod(other)\<close> with a string argument: the argument goes through
  \<^verbatim>\<open>BigNumber.from\<close>; a negative or zero modulus is refused (by ethers, and by the
  assertion of \<^verbatim>\<open>umod\<close>); otherwise the result is
  \<^verbatim>\<open>toBigNumber(toBN(a).umod(value))\<close>.
\<close>

definition BigNumber_mod :: "BigNumber \<Rightarrow> string \<Rightarrow> error + BigNumber" where
  "BigNumber_mod a other =
     bindE (BigNumber_from other) (\<lambda>ob.
     bindE (toBN ob) (\<lambda>m.
       if m \<le> 0 then Inl DivisionByZero
       else bindE (toBN a) (\<lambda>x. toBigNumber (x mod m))))"


section \<open>elliptic: the curve secp256k1\<close>

text \<open>
  \<^verbatim>\<open>const ec = new EC("secp256k1")\<close>. The curve is \<open>y\<^sup>2 = x\<^sup>3 + 7\<close> over the
  integers modulo \<open>curve_p\<close>; \<open>curve_n\<close> is \<^verbatim>\<open>ec.n\<close>, the order of the
  generator \<^verbatim>\<open>ec.g\<close>. The library computes with residues in other coordinates; the model
  is the group law it implements, on affine points.
\<close>

definition curve_p :: int where
  "curve_p = 0xFFFFFFFFFFFFFFFFFFFFFFFFFFFFFFFFFFFFFFFFFFFFFFFFFFFFFFFEFFFFFC2F"

definition curve_n :: int where
  "curve_n = 0xFFFFFFFFFFFFFFFFFFFFFFFFFFFFFFFEBAAEDCE6AF48A03BBFD25E8CD0364141"

datatype point = Infinity | Affine int int

definition curve_g :: point where
  "curve_g =
     Affine 0x79BE667EF9DCBBAC55A06295CE870B07029BFCDB2DCE28D959F2815B16F81798
            0x483ADA7726A3C4655DA4FBFC0E1108A8FD17B448A68554199C47D08FFB10D4B8"

text \<open>
  The extended Euclidean algorithm, carrying the coefficient of the first argument:
  \<open>egcd a b x y\<close> with \<open>x\<close> and \<open>y\<close> the coefficients that go with \<open>a\<close> and
  \<open>b\<close>.
\<close>

function egcd :: "int \<Rightarrow> int \<Rightarrow> int \<Rightarrow> int \<Rightarrow> int" where
  "egcd a b x y =
     (if b \<le> 0 then x else egcd b (a mod b) y (x - (a div b) * y))"
  by pat_completeness auto
termination
  by (relation "measure (\<lambda>(a, b, x, y). nat b)") (auto simp: pos_mod_bound)

text \<open>The inverse modulo \<open>curve_p\<close>.\<close>

definition invm :: "int \<Rightarrow> int" where
  "invm a = egcd (a mod curve_p) curve_p 1 0 mod curve_p"

text \<open>Addition of two points, the doubling of a point included.\<close>

fun padd :: "point \<Rightarrow> point \<Rightarrow> point" where
  "padd Infinity q = q"
| "padd (Affine x1 y1) Infinity = Affine x1 y1"
| "padd (Affine x1 y1) (Affine x2 y2) =
     (if x1 = x2 then
        (if (y1 + y2) mod curve_p = 0 then Infinity
         else
           (let l = (3 * x1 * x1 * invm (2 * y1)) mod curve_p;
                x3 = (l * l - x1 - x2) mod curve_p;
                y3 = (l * (x1 - x3) - y1) mod curve_p
            in Affine x3 y3))
      else
        (let l = ((y2 - y1) * invm (x2 - x1)) mod curve_p;
             x3 = (l * l - x1 - x2) mod curve_p;
             y3 = (l * (x1 - x3) - y1) mod curve_p
         in Affine x3 y3))"

text \<open>\<open>pmul q k\<close> is the multiple \<open>k \<cdot> q\<close>, by doubling and adding.\<close>

function pmul :: "point \<Rightarrow> int \<Rightarrow> point" where
  "pmul q k =
     (if k \<le> 0 then Infinity
      else if k = 1 then q
      else if odd k then padd q (pmul (padd q q) (k div 2))
      else pmul (padd q q) (k div 2))"
  by pat_completeness auto
termination
  by (relation "measure (\<lambda>(q, k). nat k)") auto

definition onCurve :: "int \<Rightarrow> int \<Rightarrow> bool" where
  "onCurve x y = ((y * y) mod curve_p = (x * x * x + 7) mod curve_p)"

text \<open>
  \<^verbatim>\<open>ec.keyFromPublic({x, y})\<close>: the point is built from the two coordinates, each
  read with \<^verbatim>\<open>new BN(., 16)\<close> and reduced modulo \<open>curve_p\<close>. The library does
  not check here that the coordinates satisfy the equation of the curve
  (\<^verbatim>\<open>validate()\<close> is a separate method, which \<^verbatim>\<open>poc.js\<close> does not call). The
  script passes two strings of 64 characters.
\<close>

definition keyFromPublic :: "string \<Rightarrow> string \<Rightarrow> error + point" where
  "keyFromPublic x y =
     bindE (BN_fromHex x) (\<lambda>bx.
     bindE (BN_fromHex y) (\<lambda>by.
       Inr (Affine (bx mod curve_p) (by mod curve_p))))"

text \<open>
  \<^verbatim>\<open>ec.keyFromPrivate(str)\<close>: the private scalar is \<^verbatim>\<open>new BN(str, 16)\<close> reduced
  modulo \<^verbatim>\<open>ec.n\<close>; \<^verbatim>\<open>getPrivate()\<close> returns it.
\<close>

definition keyFromPrivate :: "string \<Rightarrow> error + int" where
  "keyFromPrivate str = bindE (BN_fromHex str) (\<lambda>k. Inr (k mod curve_n))"

text \<open>\<^verbatim>\<open>getPublic()\<close> of a key pair made from a private key: \<^verbatim>\<open>ec.g.mul(priv)\<close>.\<close>

definition getPublic :: "int \<Rightarrow> point" where
  "getPublic priv = pmul curve_g priv"

text \<open>\<^verbatim>\<open>point.mul(k)\<close> with a string: the scalar is \<^verbatim>\<open>new BN(k, 16)\<close>.\<close>

definition point_mul :: "point \<Rightarrow> string \<Rightarrow> error + point" where
  "point_mul q k = bindE (BN_fromHex k) (\<lambda>bk. Inr (pmul q bk))"

text \<open>
  \<^verbatim>\<open>getX()\<close> and \<^verbatim>\<open>getY()\<close>: the point at infinity has no coordinates, and reading
  them throws.
\<close>

definition getX :: "point \<Rightarrow> error + int" where
  "getX q = (case q of Infinity \<Rightarrow> Inl PointAtInfinity | Affine x y \<Rightarrow> Inr x)"

definition getY :: "point \<Rightarrow> error + int" where
  "getY q = (case q of Infinity \<Rightarrow> Inl PointAtInfinity | Affine x y \<Rightarrow> Inr y)"


section \<open>js-sha3 and the address of a public key\<close>

text \<open>
  \<^verbatim>\<open>keccak256(buffer)\<close> returns the digest as a hexadecimal string. The hash function
  itself belongs to the package js-sha3; it is a parameter \<open>H\<close> of the model, from the
  bytes hashed to the bytes of the digest.
\<close>

definition keccak256 :: "(bytes \<Rightarrow> bytes) \<Rightarrow> bytes \<Rightarrow> string" where
  "keccak256 H msg = bytesToHex (H msg)"

text \<open>
  Lines 112-116 and 169-173 of \<^verbatim>\<open>poc.js\<close>: the public key, a hexadecimal string, is
  turned into a buffer and hashed; the last 20 bytes of the digest, written in
  hexadecimal after \<^verbatim>\<open>0x\<close>, are the address.
\<close>

definition hashedBytes :: "string \<Rightarrow> bytes" where
  "hashedBytes stealthPublicKey = Buffer_fromHex stealthPublicKey"

definition addressOf :: "(bytes \<Rightarrow> bytes) \<Rightarrow> string \<Rightarrow> string" where
  "addressOf H stealthPublicKey =
     (let stealthPublicKeyHash = keccak256 H (hashedBytes stealthPublicKey);
          stealthAddressBuffer = Buffer_fromHex stealthPublicKeyHash
      in ''0x'' @ bytesToHex (sliceLast 20 stealthAddressBuffer))"


section \<open>The proof of concept, step by step\<close>

record wallet =
  privateKey :: string
  publicKey :: string

text \<open>
  Step 1, lines 46-52. \<open>recover\<close> is \<^verbatim>\<open>utils.recoverPublicKey\<close>, the ECDSA recovery
  of ethers, a parameter of the model.
\<close>

definition step1 ::
  "(bytes \<Rightarrow> string \<Rightarrow> string) \<Rightarrow> bytes \<Rightarrow> string \<Rightarrow> wallet \<Rightarrow> error + string" where
  "step1 recover messageHashBytes signature receiver =
     (let recoveredPublicKey = recover messageHashBytes signature in
      if recoveredPublicKey \<noteq> publicKey receiver then Inl RecoveryMismatch
      else Inr recoveredPublicKey)"

text \<open>
  Step 3, line 69: \<^verbatim>\<open>ethers.BigNumber.from(randomArray).toHexString().slice(2)\<close>.
\<close>

definition step3 :: "bytes \<Rightarrow> error + string" where
  "step3 randomArray =
     bindE (BigNumber_fromBytes randomArray) (\<lambda>b. Inr (drop 2 (toHexString b)))"

record senderResult =
  receiverPublicKeyX :: string
  receiverPublicKeyY :: string
  stealthPublicKey :: string
  stealthAddress :: string

text \<open>Step 5, lines 89-116: the sender computes the stealth public key and address.\<close>

definition step5 :: "(bytes \<Rightarrow> bytes) \<Rightarrow> wallet \<Rightarrow> string \<Rightarrow> error + senderResult" where
  "step5 H receiver randomValue =
     (let receiverPublicKey = drop 4 (publicKey receiver);
          pkX = take 64 receiverPublicKey;
          pkY = drop 64 receiverPublicKey
      in
      if receiverPublicKey \<noteq> pkX @ pkY then Inl CoordinatesIncorrectlyGenerated
      else
        bindE (keyFromPublic pkX pkY) (\<lambda>receiverPublicKeyEC.
        bindE (point_mul receiverPublicKeyEC randomValue) (\<lambda>stealthPublicKeyEC.
        bindE (getX stealthPublicKeyEC) (\<lambda>sx.
        bindE (getY stealthPublicKeyEC) (\<lambda>sy.
          (let stealthPublicKeyX = pad32ByteHex (BN_toString16 sx);
               stealthPublicKeyY = pad32ByteHex (BN_toString16 sy);
               spk = stealthPublicKeyX @ stealthPublicKeyY
           in Inr \<lparr> receiverPublicKeyX = pkX, receiverPublicKeyY = pkY,
                    stealthPublicKey = spk, stealthAddress = addressOf H spk \<rparr>))))))"

text \<open>
  Lines 148-157: the stealth private key, from the private scalar of the recipient and
  the random value, through the strings the script builds.
\<close>

definition stealthPrivateKeyOf :: "int \<Rightarrow> string \<Rightarrow> error + BigNumber" where
  "stealthPrivateKeyOf priv randomValue =
     bindE (BigNumber_from (''0x'' @ randomValue)) (\<lambda>randomValueBN.
     bindE (BigNumber_from (''0x'' @ BN_toString16 priv)) (\<lambda>receiverPrivateKeyBN.
     bindE (BigNumber_mul receiverPrivateKeyBN randomValueBN) (\<lambda>product.
       (let stealthPrivateKeyFull = drop 2 (toHexString product) in
        bindE (BigNumber_from (''0x'' @ stealthPrivateKeyFull)) (\<lambda>stealthPrivateKeyBN.
          BigNumber_mod stealthPrivateKeyBN (''0x'' @ BN_toString16 curve_n))))))"

record recipientResult =
  stealthPrivateKey :: BigNumber
  stealthPublicKey2 :: string
  stealthAddress2 :: string

text \<open>
  Step 6, lines 126-173: the recipient checks the published coordinates against the
  private key, then computes the stealth private key, public key and address.
\<close>

definition step6 ::
  "(bytes \<Rightarrow> bytes) \<Rightarrow> wallet \<Rightarrow> string \<Rightarrow> string \<Rightarrow> string \<Rightarrow> error + recipientResult" where
  "step6 H receiver pkX pkY randomValue =
     bindE (keyFromPrivate (drop 2 (privateKey receiver))) (\<lambda>priv.
     bindE (getX (getPublic priv)) (\<lambda>px.
     bindE (getY (getPublic priv)) (\<lambda>py.
       if pkX \<noteq> pad32ByteHex (BN_toString16 px) \<or> pkY \<noteq> pad32ByteHex (BN_toString16 py)
       then Inl KeyMismatch
       else
         bindE (stealthPrivateKeyOf priv randomValue) (\<lambda>spriv.
         bindE (point_mul curve_g (drop 2 (toHexString spriv))) (\<lambda>stealthPublicKeyXY2.
         bindE (getX stealthPublicKeyXY2) (\<lambda>x2.
         bindE (getY stealthPublicKeyXY2) (\<lambda>y2.
           (let stealthPublicKeyX2 = BN_toString16 x2;
                stealthPublicKeyY2 = BN_toString16 y2;
                spk2 = stealthPublicKeyX2 @ stealthPublicKeyY2
            in Inr \<lparr> stealthPrivateKey = spriv, stealthPublicKey2 = spk2,
                     stealthAddress2 = addressOf H spk2 \<rparr>))))))))"


section \<open>The recipient resolver and the announcement scanner\<close>

text \<open>
  The library \<^verbatim>\<open>src/utils/utils.ts\<close> of umbra-js is not among the sources; only its
  tests are. Its functions are modelled from the specification.
\<close>

record PublicKeyPair =
  spendingPublicKey :: string
  viewingPublicKey :: string

record options =
  advanced :: bool
  supportPubKey :: bool
  supportTxHash :: bool

text \<open>The collaborators of section 6 of the specification, as functions.\<close>

record provider =
  recoverPublicKeyFromTransaction :: "string \<Rightarrow> error + string"
  resolveAddress :: "string \<Rightarrow> string option"
  registryLookup :: "string \<Rightarrow> PublicKeyPair option"
  getSentTransaction :: "string \<Rightarrow> error + string"

text \<open>
  Modelled from the spec: the input encodings of section 6. A public key is a 65-byte
  uncompressed point, \<^verbatim>\<open>0x04\<close> followed by X and Y of 32 bytes each, in hexadecimal
  with the prefix \<^verbatim>\<open>0x\<close>; a transaction hash is a 32-byte value in hexadecimal.
\<close>

definition isRawPublicKey :: "string \<Rightarrow> bool" where
  "isRawPublicKey ident = (length ident = 132 \<and> take 4 ident = ''0x04'' \<and> isHex (drop 4 ident))"

definition isTransactionHash :: "string \<Rightarrow> bool" where
  "isTransactionHash ident = (length ident = 66 \<and> take 2 ident = ''0x'' \<and> isHex (drop 2 ident))"

text \<open>
  Modelled from the spec: \<^verbatim>\<open>pointFromPublicKey\<close> of section 4.1, which "splits an
  uncompressed key into X,Y; fails with PointNotOnCurve if the coordinates do not satisfy
  the curve equation".
\<close>

definition pointFromPublicKey :: "string \<Rightarrow> error + point" where
  "pointFromPublicKey pubKeyHex =
     (if isRawPublicKey pubKeyHex then
        bindE (BN_fromHex (take 64 (drop 4 pubKeyHex))) (\<lambda>x.
        bindE (BN_fromHex (drop 64 (drop 4 pubKeyHex))) (\<lambda>y.
          if onCurve x y then Inr (Affine x y) else Inl PointNotOnCurve))
      else Inl InvalidPublicKeyFormat)"

text \<open>
  An identifier parses as a raw public key when it has the encoding of one and decodes
  into a point of the curve.
\<close>

definition parsesAsPublicKey :: "string \<Rightarrow> bool" where
  "parsesAsPublicKey ident =
     (case pointFromPublicKey ident of Inl e \<Rightarrow> False | Inr q \<Rightarrow> True)"

text \<open>
  Modelled from the spec: \<^verbatim>\<open>lookupRecipient\<close> of \<^verbatim>\<open>utils.ts\<close>, absent from the
  sources. Section 4.4: a raw public key is "permitted only when supportPubKey is set,
  else fails UnsupportedIdentifier; returns that key as both spending and viewing key";
  a transaction hash likewise with \<^verbatim>\<open>supportTxHash\<close>, delegating to the key recovery;
  otherwise the identifier is resolved to an address, and the keys come from the most
  recent transaction of the address (advanced mode) or from the registry. Section 8: an
  off-curve public key "fails PointNotOnCurve" in the resolver.
\<close>

definition lookupRecipient :: "provider \<Rightarrow> string \<Rightarrow> options \<Rightarrow> error + PublicKeyPair" where
  "lookupRecipient prov ident opts =
     (if isRawPublicKey ident then
        (if supportPubKey opts then
           bindE (pointFromPublicKey ident) (\<lambda>q.
             Inr \<lparr> spendingPublicKey = ident, viewingPublicKey = ident \<rparr>)
         else Inl UnsupportedIdentifier)
      else if isTransactionHash ident then
        (if supportTxHash opts then
           bindE (recoverPublicKeyFromTransaction prov ident) (\<lambda>k.
             Inr \<lparr> spendingPublicKey = k, viewingPublicKey = k \<rparr>)
         else Inl UnsupportedIdentifier)
      else
        (case resolveAddress prov ident of
           None \<Rightarrow> Inl IdentifierNotResolved
         | Some address \<Rightarrow>
             if advanced opts then
               bindE (getSentTransaction prov address) (\<lambda>txHash.
               bindE (recoverPublicKeyFromTransaction prov txHash) (\<lambda>k.
                 Inr \<lparr> spendingPublicKey = k, viewingPublicKey = k \<rparr>))
             else
               (case registryLookup prov address of
                  None \<Rightarrow> Inl (NotRegistered address)
                | Some keys \<Rightarrow> Inr keys)))"

text \<open>An announcement event: its block number and the rest of the log.\<close>

record 'a Event =
  blockNumber :: int
  payload :: 'a

text \<open>
  Modelled from the spec: \<^verbatim>\<open>sortStealthKeyLogs\<close> of \<^verbatim>\<open>utils.ts\<close>, absent from the
  sources. Section 4.5: it "performs a total order by ascending blockNumber; stable for
  equal block numbers (relative order among same-block events preserved). Pure function,
  no I/O." Each event is put in front of the first already sorted event whose block
  number is not smaller.
\<close>

fun insertLog :: "'a Event \<Rightarrow> 'a Event list \<Rightarrow> 'a Event list" where
  "insertLog e [] = [e]"
| "insertLog e (x # xs) =
     (if blockNumber e \<le> blockNumber x then e # x # xs else x # insertLog e xs)"

fun sortStealthKeyLogs :: "'a Event list \<Rightarrow> 'a Event list" where
  "sortStealthKeyLogs [] = []"
| "sortStealthKeyLogs (e # es) = insertLog e (sortStealthKeyLogs es)"

text \<open>The constants of \<^verbatim>\<open>utils.test.ts\<close>: a public key, and a key that is not on the curve.\<close>

definition testPublicKey :: string where
  "testPublicKey = ''0x04458465db23fe07d148c8c9078d8b67497998a66f4f2aa479973a9cbaaf8b5a96e6ba166a389b8f794b68010849b64b91343e72c7fa4cfcc178607c4b1d4870ed''"


text \<open>The integer written by a string of hexadecimal digits, for stating the properties.\<close>

definition digitValue :: "char \<Rightarrow> int" where
  "digitValue c = (case hexValue c of None \<Rightarrow> 0 | Some d \<Rightarrow> int d)"

definition valueOfHex :: "string \<Rightarrow> int" where
  "valueOfHex s = foldl (\<lambda>acc c. acc * 16 + digitValue c) 0 s"

text \<open>
  A \<^verbatim>\<open>BigNumber\<close> denotes an integer: its string is \<^verbatim>\<open>0x\<close> followed by at least
  one hexadecimal digit, and the digits write the integer.
\<close>

definition denotes :: "BigNumber \<Rightarrow> int \<Rightarrow> bool" where
  "denotes b v =
     (take 2 (toHexString b) = ''0x'' \<and> drop 2 (toHexString b) \<noteq> [] \<and>
      isHex (drop 2 (toHexString b)) \<and> valueOfHex (drop 2 (toHexString b)) = v)"

text \<open>
  An input of the proof of concept: the wallet of the private key 2 and the random array
  whose big-endian value is 65.
\<close>

definition exampleReceiver :: wallet where
  "exampleReceiver =
     \<lparr> privateKey = ''0x0000000000000000000000000000000000000000000000000000000000000002'',
       publicKey = ''0x04c6047f9441ed7d6d3045406e95c07cd85c778e4b8cef3ca7abac09b95c709ee51ae168fea63dc339a3c58419466ceaeef7f632653266d0e1236431a950cfe52a'' \<rparr>"

definition exampleRandomArray :: bytes where
  "exampleRandomArray =
    [0, 0, 0, 0, 0, 0, 0, 0, 0, 0, 0, 0, 0, 0, 0, 0,
     0, 0, 0, 0, 0, 0, 0, 0, 0, 0, 0, 0, 0, 0, 0, 0x41]"


text \<open>A provider whose collaborators all fail, for the examples.\<close>

definition noProvider :: provider where
  "noProvider =
     \<lparr> recoverPublicKeyFromTransaction = (\<lambda>h. Inl TransactionNotFound),
       resolveAddress = (\<lambda>i. None),
       registryLookup = (\<lambda>a. None),
       getSentTransaction = (\<lambda>a. Inl NoHistory) \<rparr>"

declare egcd.simps [simp del] padd.simps [simp del] pmul.simps [simp del]
  hexDigits.simps [simp del]


section \<open>Padding\<close>

lemma take_concat_replicate_single:
  "take k (concat (replicate k [c])) = replicate k c"
  by (induction k) simp_all

lemma pad32ByteHex_replicate:
  "pad32ByteHex hex = replicate (64 - length hex) (CHR ''0'') @ hex"
  by (simp add: pad32ByteHex_def padStart_def take_concat_replicate_single)

lemma length_pad32ByteHex:
  "length (pad32ByteHex hex) = max 64 (length hex)"
  by (simp add: pad32ByteHex_replicate)

lemma pad32ByteHex_long:
  "64 \<le> length hex \<Longrightarrow> pad32ByteHex hex = hex"
  by (simp add: pad32ByteHex_replicate)

lemma isHexDigit_zero: "isHexDigit (CHR ''0'')"
  by (simp add: isHexDigit_def hexValue_def)

lemma isHex_replicate_zero: "isHex (replicate k (CHR ''0''))"
  by (induction k) (simp_all add: isHex_def isHexDigit_zero)

lemma isHex_append: "isHex (s @ t) = (isHex s \<and> isHex t)"
  by (simp add: isHex_def)

lemma isHex_pad32ByteHex:
  "isHex (pad32ByteHex hex) = isHex hex"
  by (simp add: pad32ByteHex_replicate isHex_append isHex_replicate_zero)

text \<open>
  C2. \<^verbatim>\<open>pad32ByteHex\<close> is idempotent on every string; on a hexadecimal string of at
  most 64 characters (a coordinate of a secp256k1 point) the result has exactly 64
  hexadecimal characters and is the input with zeros added on the left.
\<close>

theorem pad32ByteHex_idempotent_and_exact:
  "pad32ByteHex (pad32ByteHex hex) = pad32ByteHex hex \<and>
   (isHex hex \<and> length hex \<le> 64 \<longrightarrow>
      length (pad32ByteHex hex) = 64 \<and> isHex (pad32ByteHex hex) \<and>
      pad32ByteHex hex = replicate (64 - length hex) (CHR ''0'') @ hex)"
proof (intro conjI impI)
  have "64 \<le> length (pad32ByteHex hex)"
    by (simp add: length_pad32ByteHex)
  then show "pad32ByteHex (pad32ByteHex hex) = pad32ByteHex hex"
    by (rule pad32ByteHex_long)
next
  assume h: "isHex hex \<and> length hex \<le> 64"
  then show "length (pad32ByteHex hex) = 64"
    by (simp add: length_pad32ByteHex)
  from h show "isHex (pad32ByteHex hex)"
    by (simp add: isHex_pad32ByteHex)
next
  show "pad32ByteHex hex = replicate (64 - length hex) (CHR ''0'') @ hex"
    by (rule pad32ByteHex_replicate)
qed

theorem pad32ByteHex_idempotent_and_exact_witness:
  "isHex ''e3ae1974566ca06cc516d47e0fb165a674a3dabcfca15e722f0e3450f45889'' \<and>
   length ''e3ae1974566ca06cc516d47e0fb165a674a3dabcfca15e722f0e3450f45889'' = 62 \<and>
   length (pad32ByteHex ''e3ae1974566ca06cc516d47e0fb165a674a3dabcfca15e722f0e3450f45889'') = 64 \<and>
   pad32ByteHex ''e3ae1974566ca06cc516d47e0fb165a674a3dabcfca15e722f0e3450f45889'' =
     ''00e3ae1974566ca06cc516d47e0fb165a674a3dabcfca15e722f0e3450f45889''"
  using pad32ByteHex_idempotent_and_exact
    [of "''e3ae1974566ca06cc516d47e0fb165a674a3dabcfca15e722f0e3450f45889''"]
  by (simp add: isHex_def isHexDigit_def hexValue_def numeral_2_eq_2)

text \<open>
  C10. \<^verbatim>\<open>pad32ByteHex\<close> never truncates: an input of 64 characters or more comes
  back unchanged, the length of the result is the larger of 64 and the length of the
  input, and the input is a suffix of the result.
\<close>

theorem pad32ByteHex_never_truncates:
  "(64 \<le> length hex \<longrightarrow> pad32ByteHex hex = hex) \<and>
   length (pad32ByteHex hex) = max 64 (length hex) \<and>
   drop (length (pad32ByteHex hex) - length hex) (pad32ByteHex hex) = hex"
  by (simp add: pad32ByteHex_replicate)

theorem pad32ByteHex_never_truncates_witness:
  "64 \<le> length (replicate 66 (CHR ''f'')) \<and>
   pad32ByteHex (replicate 66 (CHR ''f'')) = replicate 66 (CHR ''f'')"
  using pad32ByteHex_never_truncates [of "replicate 66 (CHR ''f'')"]
  by simp


section \<open>Sorting the announcement events\<close>

lemma set_insertLog: "set (insertLog e xs) = insert e (set xs)"
  by (induction xs) auto

lemma mset_insertLog: "mset (insertLog e xs) = add_mset e (mset xs)"
  by (induction xs) auto

lemma sorted_insertLog:
  "sorted (map blockNumber xs) \<Longrightarrow> sorted (map blockNumber (insertLog e xs))"
  by (induction xs) (auto simp: set_insertLog)

lemma filter_insertLog:
  "filter (\<lambda>x. blockNumber x = k) (insertLog e xs) =
     (if blockNumber e = k then e # filter (\<lambda>x. blockNumber x = k) xs
      else filter (\<lambda>x. blockNumber x = k) xs)"
  by (induction xs) auto

lemma sorted_sortStealthKeyLogs: "sorted (map blockNumber (sortStealthKeyLogs es))"
  by (induction es) (simp_all add: sorted_insertLog)

lemma mset_sortStealthKeyLogs: "mset (sortStealthKeyLogs es) = mset es"
  by (induction es) (simp_all add: mset_insertLog)

lemma filter_sortStealthKeyLogs:
  "filter (\<lambda>x. blockNumber x = k) (sortStealthKeyLogs es) = filter (\<lambda>x. blockNumber x = k) es"
  by (induction es) (simp_all add: filter_insertLog)

text \<open>
  C8. \<^verbatim>\<open>sortStealthKeyLogs\<close> is a function of its argument alone; its result is in
  ascending order of block number and is a rearrangement of the input; the events of any
  one block number keep their input order; and the three events of blocks 3, 2, 1 come
  back as 1, 2, 3.
\<close>

theorem sortStealthKeyLogs_total_stable:
  "sorted (map blockNumber (sortStealthKeyLogs es)) \<and>
   mset (sortStealthKeyLogs es) = mset es \<and>
   filter (\<lambda>x. blockNumber x = k) (sortStealthKeyLogs es) = filter (\<lambda>x. blockNumber x = k) es \<and>
   sortStealthKeyLogs
     [\<lparr>blockNumber = 3, payload = a\<rparr>, \<lparr>blockNumber = 2, payload = b\<rparr>,
      \<lparr>blockNumber = 1, payload = c\<rparr>] =
     [\<lparr>blockNumber = 1, payload = c\<rparr>, \<lparr>blockNumber = 2, payload = b\<rparr>,
      \<lparr>blockNumber = 3, payload = a\<rparr>]"
  by (simp add: sorted_sortStealthKeyLogs mset_sortStealthKeyLogs filter_sortStealthKeyLogs)

theorem sortStealthKeyLogs_total_stable_witness:
  "filter (\<lambda>x. blockNumber x = 2)
     (sortStealthKeyLogs
        [\<lparr>blockNumber = 2, payload = ''first''\<rparr>, \<lparr>blockNumber = 1, payload = ''x''\<rparr>,
         \<lparr>blockNumber = 2, payload = ''second''\<rparr>]) =
   [\<lparr>blockNumber = 2, payload = ''first''\<rparr>, \<lparr>blockNumber = 2, payload = ''second''\<rparr>]"
  using sortStealthKeyLogs_total_stable
    [of "[\<lparr>blockNumber = 2, payload = ''first''\<rparr>, \<lparr>blockNumber = 1, payload = ''x''\<rparr>,
          \<lparr>blockNumber = 2, payload = ''second''\<rparr>]" 2]
  by simp


section \<open>Key recovery\<close>

lemma bindE_simps [simp]:
  "bindE (Inl e) f = Inl e"
  "bindE (Inr x) f = f x"
  by (simp_all add: bindE_def)

text \<open>
  C5. The recovery of step 1 returns a key only when the recovered key is the declared
  public key of the signer; on any mismatch the result is the error
  \<open>RecoveryMismatch\<close>.
\<close>

theorem step1_self_check:
  "(step1 recover messageHashBytes signature receiver = Inr k \<longrightarrow>
      k = recover messageHashBytes signature \<and> k = publicKey receiver) \<and>
   (recover messageHashBytes signature \<noteq> publicKey receiver \<longrightarrow>
      step1 recover messageHashBytes signature receiver = Inl RecoveryMismatch)"
  by (auto simp: step1_def Let_def)

theorem step1_self_check_witness:
  "step1 (\<lambda>h s. ''0x04aa'') [1, 2] ''0x1b'' \<lparr>privateKey = ''0x01'', publicKey = ''0x04bb''\<rparr>
     = Inl RecoveryMismatch \<and>
   step1 (\<lambda>h s. ''0x04aa'') [1, 2] ''0x1b'' \<lparr>privateKey = ''0x01'', publicKey = ''0x04aa''\<rparr>
     = Inr ''0x04aa''"
  using step1_self_check [of "\<lambda>h s. ''0x04aa''" "[1, 2]" "''0x1b''"
      "\<lparr>privateKey = ''0x01'', publicKey = ''0x04bb''\<rparr>" "''zz''"]
  by (simp add: step1_def)


section \<open>Hexadecimal strings and the integers they denote\<close>

text \<open>
  Printing a non-negative integer in hexadecimal and reading it back gives the integer;
  leading zeros do not change the integer read; the digits of a byte array write its
  big-endian value.
\<close>

lemma hexDigit_cases:
  assumes "d < 16"
  shows "d = 0 \<or> d = 1 \<or> d = 2 \<or> d = 3 \<or> d = 4 \<or> d = 5 \<or> d = 6 \<or> d = 7 \<or>
         d = 8 \<or> d = 9 \<or> d = 10 \<or> d = 11 \<or> d = 12 \<or> d = 13 \<or> d = 14 \<or> d = (15::nat)"
  using assms by arith

lemma hexValue_hexDigit:
  assumes "d < 16"
  shows "hexValue (hexDigit d) = Some d"
  using hexDigit_cases [OF assms]
  by (elim disjE) (simp_all add: hexDigit_def hexValue_def)

lemma isHexDigit_hexDigit: "d < 16 \<Longrightarrow> isHexDigit (hexDigit d)"
  by (simp add: isHexDigit_def hexValue_hexDigit)

lemma digitValue_hexDigit: "d < 16 \<Longrightarrow> digitValue (hexDigit d) = int d"
  by (simp add: digitValue_def hexValue_hexDigit)

lemma parseHexDigits_isHex:
  "isHex s \<Longrightarrow> parseHexDigits acc s = Some (foldl (\<lambda>a c. a * 16 + digitValue c) acc s)"
  by (induction s arbitrary: acc) (auto simp: isHex_def isHexDigit_def digitValue_def)

lemma parseHexDigits_valueOfHex:
  "isHex s \<Longrightarrow> parseHexDigits 0 s = Some (valueOfHex s)"
  by (simp add: parseHexDigits_isHex valueOfHex_def)

lemma isHex_hd_not_minus: "isHex s \<Longrightarrow> s \<noteq> [] \<Longrightarrow> hd s \<noteq> CHR ''-''"
  by (cases s) (auto simp: isHex_def isHexDigit_def hexValue_def)

lemma BN_fromHex_isHex: "isHex s \<Longrightarrow> BN_fromHex s = Inr (valueOfHex s)"
  by (cases "s = []")
    (simp_all add: BN_fromHex_def parseHexDigits_valueOfHex isHex_hd_not_minus valueOfHex_def)

lemma foldl_digits_nonneg:
  "0 \<le> acc \<Longrightarrow> 0 \<le> foldl (\<lambda>a c. a * 16 + digitValue c) acc s"
  by (induction s arbitrary: acc) (auto simp: digitValue_def split: option.splits)

lemma valueOfHex_nonneg: "0 \<le> valueOfHex s"
  by (simp add: valueOfHex_def foldl_digits_nonneg)

lemma valueOfHex_append:
  "valueOfHex (s @ [c]) = valueOfHex s * 16 + digitValue c"
  by (simp add: valueOfHex_def)

lemma hexDigits_props:
  "0 \<le> k \<Longrightarrow> isHex (hexDigits k) \<and> hexDigits k \<noteq> [] \<and> valueOfHex (hexDigits k) = k"
proof (induction k rule: hexDigits.induct)
  case (1 k)
  show ?case
  proof (cases "k < 16")
    case True
    with 1 have "nat k < 16" by simp
    with True 1 show ?thesis
      by (simp add: hexDigits.simps [of k] isHex_def isHexDigit_hexDigit valueOfHex_def
          digitValue_hexDigit)
  next
    case False
    then have ih: "isHex (hexDigits (k div 16)) \<and> valueOfHex (hexDigits (k div 16)) = k div 16"
      using 1 by simp
    have d: "nat (k mod 16) < 16" by simp
    have "valueOfHex (hexDigits k) = (k div 16) * 16 + k mod 16"
      using False ih d
      by (simp add: hexDigits.simps [of k] valueOfHex_append digitValue_hexDigit)
    moreover have "isHex (hexDigits k)"
      using False ih d
      by (simp add: hexDigits.simps [of k] isHex_append isHex_def isHexDigit_hexDigit)
    moreover have "hexDigits k \<noteq> []"
      using False by (simp add: hexDigits.simps [of k])
    ultimately show ?thesis by simp
  qed
qed

lemma BN_toString16_props:
  "0 \<le> k \<Longrightarrow> isHex (BN_toString16 k) \<and> BN_toString16 k \<noteq> [] \<and> valueOfHex (BN_toString16 k) = k"
  using hexDigits_props [of k] by (simp add: BN_toString16_def)

lemma BN_roundtrip: "0 \<le> k \<Longrightarrow> BN_fromHex (BN_toString16 k) = Inr k"
  using BN_toString16_props [of k] by (simp add: BN_fromHex_isHex)

lemma stripZeroBytes_props:
  "isHex s \<Longrightarrow> isHex (stripZeroBytes s) \<and> valueOfHex (stripZeroBytes s) = valueOfHex s \<and>
     (s \<noteq> [] \<longrightarrow> stripZeroBytes s \<noteq> [])"
proof (induction s rule: stripZeroBytes.induct)
  case (1 a b rest)
  show ?case
  proof (cases "a = CHR ''0'' \<and> b = CHR ''0'' \<and> rest \<noteq> []")
    case True
    then have "isHex rest" using 1(2) by (simp add: isHex_def)
    with 1(1) True have ih: "isHex (stripZeroBytes rest) \<and>
        valueOfHex (stripZeroBytes rest) = valueOfHex rest \<and> stripZeroBytes rest \<noteq> []"
      by simp
    have "valueOfHex (a # b # rest) = valueOfHex rest"
      using True by (simp add: valueOfHex_def digitValue_def hexValue_def)
    with ih True show ?thesis by simp
  next
    case False
    with 1(2) show ?thesis by auto
  qed
qed simp_all

lemma byteToHex_props:
  "isHex (byteToHex b) \<and>
   foldl (\<lambda>a c. a * 16 + digitValue c) acc (byteToHex b) = acc * 256 + uint b"
proof -
  have u: "unat b < 256"
    using unsigned_less [of b, where ?'a = nat] by simp
  then have hi: "unat b div 16 < 16" and lo: "unat b mod 16 < 16" by simp_all
  have "int (unat b div 16) * 16 + int (unat b mod 16) = int (unat b)"
    by (simp add: zdiv_int zmod_int)
  then have "(acc * 16 + int (unat b div 16)) * 16 + int (unat b mod 16) = acc * 256 + uint b"
    by (simp add: algebra_simps)
  then show ?thesis
    using hi lo
    by (simp add: byteToHex_def isHex_def isHexDigit_hexDigit digitValue_hexDigit)
qed

lemma isHex_bytesToHex: "isHex (bytesToHex arr)"
  by (induction arr) (simp_all add: bytesToHex_def isHex_append byteToHex_props, simp add: isHex_def)

lemma foldl_bytesToHex:
  "foldl (\<lambda>a c. a * 16 + digitValue c) acc (bytesToHex arr) =
   foldl (\<lambda>a b. a * 256 + uint b) acc arr"
  by (induction arr arbitrary: acc) (simp_all add: bytesToHex_def byteToHex_props)

lemma valueOfHex_bytesToHex: "valueOfHex (bytesToHex arr) = bigEndian arr"
  by (simp add: valueOfHex_def bigEndian_def foldl_bytesToHex)

lemma bytesToHex_nonempty: "arr \<noteq> [] \<Longrightarrow> bytesToHex arr \<noteq> []"
  by (cases arr) (simp_all add: bytesToHex_def byteToHex_def)

lemma length_Buffer_fromHex: "isHex s \<Longrightarrow> length (Buffer_fromHex s) = length s div 2"
  by (induction s rule: Buffer_fromHex.induct)
    (auto simp: isHex_def isHexDigit_def split: option.splits)


section \<open>The numbers of ethers and the integers they denote\<close>

text \<open>
  Every operation of \<^verbatim>\<open>BigNumber\<close> used by the script succeeds on numbers that denote
  integers and yields a number that denotes the expected integer.
\<close>

lemma isHex_not_0x: "isHex h \<Longrightarrow> take 2 h \<noteq> ''0x''"
proof (cases h)
  case Nil
  then show ?thesis by simp
next
  case (Cons a t)
  assume hx: "isHex h"
  show ?thesis
  proof (cases t)
    case Nil
    with Cons show ?thesis by simp
  next
    case (Cons b u)
    with \<open>h = a # t\<close> hx have "isHexDigit b" by (simp add: isHex_def)
    then have "b \<noteq> CHR ''x''" by (auto simp: isHexDigit_def hexValue_def)
    with Cons \<open>h = a # t\<close> show ?thesis by simp
  qed
qed

lemma valueOfHex_zero_Cons: "valueOfHex (CHR ''0'' # h) = valueOfHex h"
  by (simp add: valueOfHex_def digitValue_def hexValue_def)

lemma isHex_zero_Cons: "isHex (CHR ''0'' # h) = isHex h"
  by (simp add: isHex_def isHexDigit_zero)

lemma toHex_0x:
  assumes "h \<noteq> []"
  shows "toHex (''0x'' @ h) =
           ''0x'' @ stripZeroBytes (if odd (length h) then CHR ''0'' # h else h)"
  using assms by (simp add: toHex_def Let_def)

lemma toHex_plain:
  assumes "isHex h" and "h \<noteq> []"
  shows "toHex h = toHex (''0x'' @ h)"
  using isHex_not_0x [OF assms(1)] by (simp add: toHex_def Let_def)

lemma toHex_denotes:
  assumes "isHex h" and "h \<noteq> []"
  shows "denotes (BigNumber (toHex (''0x'' @ h))) (valueOfHex h)"
proof -
  let ?p = "if odd (length h) then CHR ''0'' # h else h"
  have p: "isHex ?p" "?p \<noteq> []" "valueOfHex ?p = valueOfHex h"
    using assms by (simp_all add: isHex_zero_Cons valueOfHex_zero_Cons)
  from stripZeroBytes_props [OF p(1)] p(2,3)
  have "isHex (stripZeroBytes ?p)" "stripZeroBytes ?p \<noteq> []"
       "valueOfHex (stripZeroBytes ?p) = valueOfHex h"
    by simp_all
  then show ?thesis
    unfolding denotes_def toHex_0x [OF assms(2)] by simp
qed

lemma BigNumber_from_0x:
  assumes "isHex h" and "h \<noteq> []"
  shows "\<exists>b. BigNumber_from (''0x'' @ h) = Inr b \<and> denotes b (valueOfHex h)"
  using assms toHex_denotes [OF assms] by (simp add: BigNumber_from_def)

lemma toBN_denotes: "denotes b v \<Longrightarrow> toBN b = Inr v"
  by (auto simp: denotes_def toBN_def BN_fromHex_isHex)

lemma denotes_nonneg: "denotes b v \<Longrightarrow> 0 \<le> v"
  using valueOfHex_nonneg by (auto simp: denotes_def)

lemma denotes_reparse:
  assumes "denotes b v"
  shows "\<exists>c. BigNumber_from (''0x'' @ drop 2 (toHexString b)) = Inr c \<and> denotes c v"
  using assms BigNumber_from_0x [of "drop 2 (toHexString b)"] by (auto simp: denotes_def)

lemma toBigNumber_denotes:
  assumes "0 \<le> k"
  shows "\<exists>b. toBigNumber k = Inr b \<and> denotes b k"
proof -
  let ?h = "BN_toString16 k"
  from BN_toString16_props [OF assms]
  have h: "isHex ?h" "?h \<noteq> []" "valueOfHex ?h = k" by simp_all
  from toHex_denotes [OF h(1,2)] h(3)
  have d: "denotes (BigNumber (toHex (''0x'' @ ?h))) k" by simp
  then have "take 2 (toHex (''0x'' @ ?h)) = ''0x''"
    by (simp add: denotes_def)
  then have "toHex (''0x'' @ ?h) = ''0x'' @ drop 2 (toHex (''0x'' @ ?h))"
    by (metis append_take_drop_id)
  with denotes_reparse [OF d] have "\<exists>c. BigNumber_from (toHex (''0x'' @ ?h)) = Inr c \<and> denotes c k"
    by simp
  then show ?thesis
    by (simp add: toBigNumber_def toHex_plain [OF h(1,2)])
qed

lemma BigNumber_mul_denotes:
  assumes "denotes a x" and "denotes b y"
  shows "\<exists>c. BigNumber_mul a b = Inr c \<and> denotes c (x * y)"
proof -
  have "0 \<le> x * y"
    using denotes_nonneg [OF assms(1)] denotes_nonneg [OF assms(2)] by simp
  from toBigNumber_denotes [OF this] show ?thesis
    by (simp add: BigNumber_mul_def toBN_denotes [OF assms(1)] toBN_denotes [OF assms(2)])
qed

lemma BigNumber_mod_denotes:
  assumes "denotes a x" and "isHex m" and "m \<noteq> []" and "0 < valueOfHex m"
  shows "\<exists>c. BigNumber_mod a (''0x'' @ m) = Inr c \<and> denotes c (x mod valueOfHex m)"
proof -
  from BigNumber_from_0x [OF assms(2,3)] obtain ob where
    ob: "BigNumber_from (''0x'' @ m) = Inr ob" "denotes ob (valueOfHex m)"
    by blast
  have "0 \<le> x mod valueOfHex m"
    using assms(4) by simp
  from toBigNumber_denotes [OF this] show ?thesis
    using assms(4) ob(1)
    by (simp add: BigNumber_mod_def toBN_denotes [OF ob(2)] toBN_denotes [OF assms(1)])
qed

lemma curve_n_pos: "0 < curve_n"
  by (simp add: curve_n_def)

lemma stealthPrivateKeyOf_denotes:
  assumes "0 \<le> priv" and "isHex randomValue" and "randomValue \<noteq> []"
  shows "\<exists>spk. stealthPrivateKeyOf priv randomValue = Inr spk \<and>
           denotes spk ((priv * valueOfHex randomValue) mod curve_n)"
proof -
  from BigNumber_from_0x [OF assms(2,3)] obtain rb where
    rb: "BigNumber_from (''0x'' @ randomValue) = Inr rb" "denotes rb (valueOfHex randomValue)"
    by blast
  from BN_toString16_props [OF assms(1)]
  have ph: "isHex (BN_toString16 priv)" "BN_toString16 priv \<noteq> []"
    "valueOfHex (BN_toString16 priv) = priv" by simp_all
  from BigNumber_from_0x [OF ph(1,2)] ph(3) obtain pb where
    pb: "BigNumber_from (''0x'' @ BN_toString16 priv) = Inr pb" "denotes pb priv"
    by auto
  from BigNumber_mul_denotes [OF pb(2) rb(2)] obtain prod where
    prod: "BigNumber_mul pb rb = Inr prod" "denotes prod (priv * valueOfHex randomValue)"
    by blast
  from denotes_reparse [OF prod(2)] obtain full where
    full: "BigNumber_from (''0x'' @ drop 2 (toHexString prod)) = Inr full"
      "denotes full (priv * valueOfHex randomValue)"
    by blast
  from BN_toString16_props [of curve_n] curve_n_pos
  have nh: "isHex (BN_toString16 curve_n)" "BN_toString16 curve_n \<noteq> []"
    "valueOfHex (BN_toString16 curve_n) = curve_n" by simp_all
  have "0 < valueOfHex (BN_toString16 curve_n)"
    using nh(3) curve_n_pos by simp
  from BigNumber_mod_denotes [OF full(2) nh(1,2) this] nh(3)
  obtain spk where
    "BigNumber_mod full (''0x'' @ BN_toString16 curve_n) = Inr spk"
    "denotes spk ((priv * valueOfHex randomValue) mod curve_n)"
    by auto
  then show ?thesis
    using rb(1) pb(1) prod(1) full(1)
    by (simp add: stealthPrivateKeyOf_def Let_def)
qed


section \<open>The random value\<close>

lemma step3_denotes:
  assumes "randomArray \<noteq> []"
  shows "\<exists>randomValue. step3 randomArray = Inr randomValue \<and> isHex randomValue \<and>
           randomValue \<noteq> [] \<and> valueOfHex randomValue = bigEndian randomArray"
proof -
  from BigNumber_from_0x [OF isHex_bytesToHex bytesToHex_nonempty [OF assms]]
  obtain b where b: "BigNumber_from (''0x'' @ bytesToHex randomArray) = Inr b"
    "denotes b (bigEndian randomArray)"
    by (auto simp: valueOfHex_bytesToHex)
  then show ?thesis
    by (simp add: step3_def BigNumber_fromBytes_def hexlify_def denotes_def)
qed

lemma step3_example:
  "step3 [0, 0, 0, 0, 0, 0, 0, 0, 0, 0, 0, 0, 0, 0, 0, 0,
          0, 0, 0, 0, 0, 0, 0, 0, 0, 0, 0, 0, 0, 0, 0, 0x41] = Inr ''41''"
  by (simp add: step3_def BigNumber_fromBytes_def hexlify_def bytesToHex_def byteToHex_def
      hexDigit_def BigNumber_from_def isHex_def isHexDigit_def hexValue_def toHex_def)

lemma bigEndian_example:
  "bigEndian [0, 0, 0, 0, 0, 0, 0, 0, 0, 0, 0, 0, 0, 0, 0, 0,
              0, 0, 0, 0, 0, 0, 0, 0, 0, 0, 0, 0, 0, 0, 0, 0x41] = 65"
  by (simp add: bigEndian_def)

text \<open>
  C9. For every random array of 32 bytes, step 3 yields a string; the scalar that the
  sender's multiplication reads from it (\<^verbatim>\<open>new BN(randomValue, 16)\<close> inside
  \<^verbatim>\<open>mul\<close>) and the number that the recipient builds from it
  (\<^verbatim>\<open>BigNumber.from(`0x${randomValue}`)\<close>) are both the big-endian value of the
  array, whatever the length of the string.
\<close>

theorem random_value_same_scalar:
  "length randomArray = 32 \<Longrightarrow>
   (case step3 randomArray of
      Inl e \<Rightarrow> False
    | Inr randomValue \<Rightarrow>
        BN_fromHex randomValue = Inr (bigEndian randomArray) \<and>
        point_mul q randomValue = Inr (pmul q (bigEndian randomArray)) \<and>
        bindE (BigNumber_from (''0x'' @ randomValue)) toBN = Inr (bigEndian randomArray))"
proof -
  assume "length randomArray = 32"
  then have "randomArray \<noteq> []" by auto
  from step3_denotes [OF this] obtain rv where
    rv: "step3 randomArray = Inr rv" "isHex rv" "rv \<noteq> []"
      "valueOfHex rv = bigEndian randomArray"
    by blast
  from BigNumber_from_0x [OF rv(2,3)] rv(4) obtain b where
    b: "BigNumber_from (''0x'' @ rv) = Inr b" "denotes b (bigEndian randomArray)"
    by auto
  have "BN_fromHex rv = Inr (bigEndian randomArray)"
    using rv(2,4) by (simp add: BN_fromHex_isHex)
  moreover from this have "point_mul q rv = Inr (pmul q (bigEndian randomArray))"
    by (simp add: point_mul_def)
  moreover have "bindE (BigNumber_from (''0x'' @ rv)) toBN = Inr (bigEndian randomArray)"
    using b(1) toBN_denotes [OF b(2)] by simp
  ultimately show ?thesis
    using rv(1) by simp
qed

theorem random_value_same_scalar_witness:
  "step3 [0, 0, 0, 0, 0, 0, 0, 0, 0, 0, 0, 0, 0, 0, 0, 0,
          0, 0, 0, 0, 0, 0, 0, 0, 0, 0, 0, 0, 0, 0, 0, 0x41] = Inr ''41'' \<and>
   BN_fromHex ''41'' = Inr 65 \<and>
   bindE (BigNumber_from ''0x41'') toBN = Inr 65"
proof -
  let ?arr = "[0, 0, 0, 0, 0, 0, 0, 0, 0, 0, 0, 0, 0, 0, 0, 0,
          0, 0, 0, 0, 0, 0, 0, 0, 0, 0, 0, 0, 0, 0, 0, 0x41] :: bytes"
  have "length ?arr = 32" by simp
  from random_value_same_scalar [OF this, of curve_g] show ?thesis
    unfolding step3_example bigEndian_example by simp
qed


section \<open>The stealth private key\<close>

lemma BN_fromHex_41: "BN_fromHex ''41'' = Inr 65"
  by (simp add: BN_fromHex_def hexValue_def)

lemma isHex_41: "isHex ''41''"
  by (simp add: isHex_def isHexDigit_def hexValue_def)

lemma BigNumber_from_41: "BigNumber_from ''0x41'' = Inr (BigNumber ''0x41'')"
  by (simp add: BigNumber_from_def isHex_def isHexDigit_def hexValue_def toHex_def)

lemma BigNumber_from_two: "BigNumber_from (''0x'' @ BN_toString16 2) = Inr (BigNumber ''0x02'')"
  by (simp add: BN_toString16_def hexDigits.simps hexDigit_def BigNumber_from_def isHex_def
      isHexDigit_def hexValue_def toHex_def)

lemma toBN_examples:
  "toBN (BigNumber ''0x02'') = Inr 2"
  "toBN (BigNumber ''0x41'') = Inr 65"
  "toBN (BigNumber ''0x82'') = Inr 130"
  by (simp_all add: toBN_def BN_fromHex_def hexValue_def)

lemma toBigNumber_130: "toBigNumber 130 = Inr (BigNumber ''0x82'')"
  by (simp add: toBigNumber_def BN_toString16_def hexDigits.simps hexDigit_def BigNumber_from_def
      isHex_def isHexDigit_def hexValue_def toHex_def)

lemma BigNumber_mul_example:
  "BigNumber_mul (BigNumber ''0x02'') (BigNumber ''0x41'') = Inr (BigNumber ''0x82'')"
  by (simp add: BigNumber_mul_def toBN_examples toBigNumber_130)

lemma BigNumber_from_82: "BigNumber_from ''0x82'' = Inr (BigNumber ''0x82'')"
  by (simp add: BigNumber_from_def isHex_def isHexDigit_def hexValue_def toHex_def)

lemma BigNumber_mod_example:
  "BigNumber_mod (BigNumber ''0x82'') (''0x'' @ BN_toString16 curve_n) = Inr (BigNumber ''0x82'')"
proof -
  from BN_toString16_props [of curve_n] curve_n_pos
  have nh: "isHex (BN_toString16 curve_n)" "BN_toString16 curve_n \<noteq> []"
    "valueOfHex (BN_toString16 curve_n) = curve_n" by simp_all
  from BigNumber_from_0x [OF nh(1,2)] nh(3) obtain ob where
    ob: "BigNumber_from (''0x'' @ BN_toString16 curve_n) = Inr ob" "denotes ob curve_n"
    by auto
  have m: "(130::int) mod curve_n = 130" by (simp add: curve_n_def)
  show ?thesis
    using ob(1) curve_n_pos
    by (simp add: BigNumber_mod_def toBN_denotes [OF ob(2)] toBN_examples m toBigNumber_130)
qed

lemma stealthPrivateKeyOf_example:
  "stealthPrivateKeyOf 2 ''41'' = Inr (BigNumber ''0x82'')"
  using BigNumber_from_41 BigNumber_from_two BigNumber_mul_example BigNumber_from_82
    BigNumber_mod_example
  by (simp add: stealthPrivateKeyOf_def)

lemma keyFromPrivate_two:
  "keyFromPrivate ''0000000000000000000000000000000000000000000000000000000000000002'' = Inr 2"
  by (simp add: keyFromPrivate_def BN_fromHex_def hexValue_def curve_n_def)

text \<open>
  C4. The stealth private key of the recipient is the product of the private scalar and
  the random value, taken as unbounded integers, reduced modulo the order of the curve;
  it lies in the interval from 0 (included) to the order (excluded). The private scalar
  is the private key \<open>d\<close> as \<^verbatim>\<open>ec.keyFromPrivate\<close> holds it.
\<close>

theorem stealth_private_key_product_mod_order:
  "keyFromPrivate privateKeyHex = Inr priv \<Longrightarrow> BN_fromHex privateKeyHex = Inr d \<Longrightarrow>
   isHex randomValue \<Longrightarrow> randomValue \<noteq> [] \<Longrightarrow> BN_fromHex randomValue = Inr r \<Longrightarrow>
   (case stealthPrivateKeyOf priv randomValue of
      Inl e \<Rightarrow> False
    | Inr spk \<Rightarrow>
        toBN spk = Inr ((d * r) mod curve_n) \<and>
        0 \<le> (d * r) mod curve_n \<and> (d * r) mod curve_n < curve_n)"
proof -
  assume kp: "keyFromPrivate privateKeyHex = Inr priv"
    and d: "BN_fromHex privateKeyHex = Inr d"
    and h: "isHex randomValue" "randomValue \<noteq> []"
    and r: "BN_fromHex randomValue = Inr r"
  from kp d have priv: "priv = d mod curve_n"
    by (simp add: keyFromPrivate_def)
  then have "0 \<le> priv" using curve_n_pos by simp
  from stealthPrivateKeyOf_denotes [OF this h] obtain spk where
    spk: "stealthPrivateKeyOf priv randomValue = Inr spk"
      "denotes spk ((priv * valueOfHex randomValue) mod curve_n)"
    by blast
  from r h(1) have "valueOfHex randomValue = r"
    by (simp add: BN_fromHex_isHex)
  with priv have "(priv * valueOfHex randomValue) mod curve_n = (d * r) mod curve_n"
    by (simp add: mod_mult_left_eq)
  with spk(2) have "toBN spk = Inr ((d * r) mod curve_n)"
    by (simp add: toBN_denotes)
  then show ?thesis
    using spk(1) curve_n_pos by simp
qed

theorem stealth_private_key_product_mod_order_witness:
  "stealthPrivateKeyOf 2 ''41'' = Inr (BigNumber ''0x82'') \<and>
   toBN (BigNumber ''0x82'') = Inr 130 \<and> (2 * 65) mod curve_n = 130"
proof -
  have a: "BN_fromHex ''0000000000000000000000000000000000000000000000000000000000000002'' = Inr 2"
    by (simp add: BN_fromHex_def hexValue_def)
  have c: "''41'' \<noteq> []" by simp
  have e: "(2 * 65) mod curve_n = 130" by (simp add: curve_n_def)
  from stealth_private_key_product_mod_order [OF keyFromPrivate_two a isHex_41 c BN_fromHex_41]
  show ?thesis
    unfolding stealthPrivateKeyOf_example e by simp
qed


section \<open>Points of the curve\<close>

text \<open>
  Membership in the curve and the sums of concrete points are checked from certificates:
  the inverse and every reduction modulo \<open>curve_p\<close> come with the quotient that
  proves them, so that only products and sums of numerals are computed. The inverse
  computed by \<open>invm\<close> is the one of the certificate because \<open>egcd\<close> keeps a
  Bezout coefficient and an inverse modulo \<open>curve_p\<close> is unique.
\<close>

lemma onCurveI: "x * x * x + 7 = y * y + q * curve_p \<Longrightarrow> onCurve x y"
  by (simp add: onCurve_def)


lemma curve_p_pos: "0 < curve_p"
  by (simp add: curve_p_def)

lemma egcd_invariant:
  "0 \<le> a \<Longrightarrow> 0 \<le> b \<Longrightarrow> (x * a0) mod m = a mod m \<Longrightarrow> (y * a0) mod m = b mod m \<Longrightarrow>
   (egcd a b x y * a0) mod m = gcd a b mod m"
proof (induction a b x y rule: egcd.induct)
  case (1 a b x y)
  show ?case
  proof (cases "b \<le> 0")
    case True
    with 1(3) have "b = 0" by simp
    with 1(2,4) show ?thesis
      by (simp add: egcd.simps [of a 0 x y])
  next
    case False
    then have bpos: "0 < b" by simp
    have r: "a - (a div b) * b = a mod b"
      by (simp add: minus_div_mult_eq_mod)
    have "((x - (a div b) * y) * a0) mod m = (x * a0 - (a div b) * (y * a0)) mod m"
      by (simp add: algebra_simps)
    also have "\<dots> = (x * a0 mod m - ((a div b) * (y * a0 mod m)) mod m) mod m"
      by (simp add: mod_diff_eq mod_mult_right_eq)
    also have "\<dots> = (a mod m - ((a div b) * (b mod m)) mod m) mod m"
      using 1(4,5) by simp
    also have "\<dots> = (a - (a div b) * b) mod m"
      by (simp add: mod_diff_eq mod_mult_right_eq)
    finally have inv: "((x - (a div b) * y) * a0) mod m = (a mod b) mod m"
      using r by simp
    have "(egcd b (a mod b) y (x - (a div b) * y) * a0) mod m = gcd b (a mod b) mod m"
      using False bpos 1(5) inv by (intro 1(1)) simp_all
    moreover have "gcd b (a mod b) = gcd a b"
      by (metis gcd.commute gcd_red_int)
    ultimately show ?thesis
      using False by (simp add: egcd.simps [of a b x y])
  qed
qed

lemma invm_unique:
  assumes "0 \<le> b" and "b < curve_p" and "(a * b) mod curve_p = 1"
  shows "invm a = b"
proof -
  let ?e = "egcd (a mod curve_p) curve_p 1 0"
  have "0 \<le> a mod curve_p" using curve_p_pos by simp
  then have e: "(?e * a) mod curve_p = gcd (a mod curve_p) curve_p mod curve_p"
    using curve_p_pos by (intro egcd_invariant) simp_all
  have "gcd (a mod curve_p) curve_p dvd (a * b) mod curve_p"
  proof -
    have "gcd (a mod curve_p) curve_p dvd a mod curve_p" by simp
    moreover have "gcd (a mod curve_p) curve_p dvd curve_p" by simp
    ultimately have "gcd (a mod curve_p) curve_p dvd a"
      by (metis dvd_mod_imp_dvd)
    then have "gcd (a mod curve_p) curve_p dvd a * b" by simp
    then show ?thesis by (simp add: dvd_mod)
  qed
  with assms(3) have "gcd (a mod curve_p) curve_p = 1" by simp
  with e have ea: "(?e * a) mod curve_p = 1"
    using curve_p_pos by (simp add: curve_p_def)
  have "?e mod curve_p = (?e * ((a * b) mod curve_p)) mod curve_p"
    using assms(3) by simp
  also have "\<dots> = (((?e * a) mod curve_p) * b) mod curve_p"
    by (simp add: mod_mult_right_eq mod_mult_left_eq mult.assoc)
  also have "\<dots> = b mod curve_p"
    using ea by simp
  also have "\<dots> = b"
    using assms(1,2) by simp
  finally show ?thesis by (simp add: invm_def)
qed

lemma mod_cert:
  "a = r + q * curve_p \<Longrightarrow> 0 \<le> r \<Longrightarrow> r < curve_p \<Longrightarrow> a mod curve_p = r"
  by simp

lemma mod_curve_p_small: "0 \<le> a \<Longrightarrow> a < curve_p \<Longrightarrow> a mod curve_p = a"
  by simp

lemma padd_double_cert:
  assumes iv: "0 \<le> iv" "iv < curve_p" "(2 * y1) * iv = 1 + qi * curve_p"
    and ny: "y1 + y1 = ry + qr * curve_p" "0 < ry" "ry < curve_p"
    and l: "3 * x1 * x1 * iv = l + ql * curve_p" "0 \<le> l" "l < curve_p"
    and x3: "l * l - x1 - x1 = x3 + qx * curve_p" "0 \<le> x3" "x3 < curve_p"
    and y3: "l * (x1 - x3) - y1 = y3 + qy * curve_p" "0 \<le> y3" "y3 < curve_p"
  shows "padd (Affine x1 y1) (Affine x1 y1) = Affine x3 y3"
proof -
  have "((2 * y1) * iv) mod curve_p = 1"
    using iv(3) curve_p_pos by (simp add: curve_p_def)
  then have inv: "invm (2 * y1) = iv"
    using iv(1,2) by (intro invm_unique) simp_all
  have "(y1 + y1) mod curve_p = ry"
    using ny by (intro mod_cert) simp_all
  then have n0: "(y1 + y1) mod curve_p \<noteq> 0"
    using ny(2) by simp
  have lm: "(3 * x1 * x1 * iv) mod curve_p = l"
    using l by (intro mod_cert) simp_all
  have xm: "(l * l - x1 - x1) mod curve_p = x3"
    using x3 by (intro mod_cert) simp_all
  have ym: "(l * (x1 - x3) - y1) mod curve_p = y3"
    using y3 by (intro mod_cert) simp_all
  show ?thesis
    using n0 inv lm xm ym by (simp add: padd.simps Let_def)
qed

lemma padd_add_cert:
  assumes ne: "x1 \<noteq> x2"
    and iv: "0 \<le> iv" "iv < curve_p" "(x2 - x1) * iv = 1 + qi * curve_p"
    and l: "(y2 - y1) * iv = l + ql * curve_p" "0 \<le> l" "l < curve_p"
    and x3: "l * l - x1 - x2 = x3 + qx * curve_p" "0 \<le> x3" "x3 < curve_p"
    and y3: "l * (x1 - x3) - y1 = y3 + qy * curve_p" "0 \<le> y3" "y3 < curve_p"
  shows "padd (Affine x1 y1) (Affine x2 y2) = Affine x3 y3"
proof -
  have "((x2 - x1) * iv) mod curve_p = 1"
    using iv(3) curve_p_pos by (simp add: curve_p_def)
  then have inv: "invm (x2 - x1) = iv"
    using iv(1,2) by (intro invm_unique) simp_all
  have lm: "((y2 - y1) * iv) mod curve_p = l"
    using l by (intro mod_cert) simp_all
  have xm: "(l * l - x1 - x2) mod curve_p = x3"
    using x3 by (intro mod_cert) simp_all
  have ym: "(l * (x1 - x3) - y1) mod curve_p = y3"
    using y3 by (intro mod_cert) simp_all
  show ?thesis
    using ne inv lm xm ym by (simp add: padd.simps Let_def)
qed

lemma pmul_one: "pmul q 1 = q"
  by (simp add: pmul.simps [of q 1])

lemma pmul_even: "1 < k \<Longrightarrow> even k \<Longrightarrow> pmul q k = pmul (padd q q) (k div 2)"
  by (simp add: pmul.simps [of q k])

lemma pmul_odd: "1 < k \<Longrightarrow> odd k \<Longrightarrow> pmul q k = padd q (pmul (padd q q) (k div 2))"
  by (simp add: pmul.simps [of q k])

lemma double_G:
  "padd (Affine 55066263022277343669578718895168534326250603453777594175500187360389116729240 32670510020758816978083085130507043184471273380659243275938904335757337482424)
        (Affine 55066263022277343669578718895168534326250603453777594175500187360389116729240 32670510020758816978083085130507043184471273380659243275938904335757337482424) =
   Affine 89565891926547004231252920425935692360644145829622209833684329913297188986597 12158399299693830322967808612713398636155367887041628176798871954788371653930"
  by (rule padd_double_cert
      [where iv = "83174505189910067536517124096019359197644205712500122884473429251812128958118"
         and qi = "46935045790725648649267782968500640161152285907695229854005833192632722118801"
         and ry = "65341020041517633956166170261014086368942546761318486551877808671514674964848"
         and qr = "0"
         and l = "91914383230618135761690975197207778399550061809281766160147273830617914855857"
         and ql = "6534371175412604458958908912693048525839811796587982546211129043135405424530153901770406203935164968917121831102336830270909059548152185210409961777233761"
         and qx = "72960544198751070137407653953064356484142421793117212772781213583140490307444"
         and qy = "- 27385395093115163030257761037380459032295473848319340750848160802454523403281"])
    (simp_all add: curve_p_def)

lemma double_2G:
  "padd (Affine 89565891926547004231252920425935692360644145829622209833684329913297188986597 12158399299693830322967808612713398636155367887041628176798871954788371653930)
        (Affine 89565891926547004231252920425935692360644145829622209833684329913297188986597 12158399299693830322967808612713398636155367887041628176798871954788371653930) =
   Affine 103388573995635080359749164254216598308788835304023601477803095234286494993683 37057141145242123013015316630864329550140216928701153669873286428255828810018"
  by (rule padd_double_cert
      [where iv = "93736451599995461267424215486556527005103980679329099329644578865571485201981"
         and qi = "19685027103248505477573801344419607458668632107465184662348535250189437162093"
         and ry = "24316798599387660645935617225426797272310735774083256353597743909576743307860"
         and qr = "0"
         and l = "48317604920791681227269902149572831041666497563152549156566744096979700087652"
         and ql = "19482118660833131143565059488889132062536031277944370802080045650318995799224424488550052744512926453902359616090610097833707910217541850445599669546171445"
         and qx = "20161920910650140572019660575841911928780211645271432676508983164359375156029"
         and qy = "- 5767914678446550851565314800732940608554994883195120850202271426178737036540"])
    (simp_all add: curve_p_def)

lemma double_4G:
  "padd (Affine 103388573995635080359749164254216598308788835304023601477803095234286494993683 37057141145242123013015316630864329550140216928701153669873286428255828810018)
        (Affine 103388573995635080359749164254216598308788835304023601477803095234286494993683 37057141145242123013015316630864329550140216928701153669873286428255828810018) =
   Affine 21262057306151627953595685090280431278183829487175876377991189246716355947009 41749993296225487051377864631615517161996906063147759678534462689479575333124"
  by (rule padd_double_cert
      [where iv = "28251856789096162999762519039887113235530305026901261163221850518573700905610"
         and qi = "18082980478968841633997725433245161975762541776188863596083112961765144317193"
         and ry = "74114282290484246026030633261728659100280433857402307339746572856511657620036"
         and qr = "0"
         and l = "68106669326848163986215483068199883287802374334073516115086955097631971335277"
         and ql = "7824101060841339834128292471747650113201322590695492191865109773165618842897378877452124622948285867292142949086715831153988039231679791020847553501920111"
         and qx = "40059026807003928466602810320518046080237302829608196449418334782284102379358"
         and qy = "48305230106634599541402499614981165001919832355857218853751380507980351041212"])
    (simp_all add: curve_p_def)

lemma double_8G:
  "padd (Affine 21262057306151627953595685090280431278183829487175876377991189246716355947009 41749993296225487051377864631615517161996906063147759678534462689479575333124)
        (Affine 21262057306151627953595685090280431278183829487175876377991189246716355947009 41749993296225487051377864631615517161996906063147759678534462689479575333124) =
   Affine 104059883622109321374094289636044428849728529177856482232626205340719788190730 112122903140080327253741791678230372394936108416576609264408917599318947489825"
  by (rule padd_double_cert
      [where iv = "44908759060410746426936320578584839352891245825107015656635909502382714814724"
         and qi = "32384602472648350638801935116545680883303437723601251703182478976168018722577"
         and ry = "83499986592450974102755729263231034323993812126295519357068925378959150666248"
         and qr = "0"
         and l = "85133781845643327656982715620325597370400605720630428769419861955027426167303"
         and ql = "525997873048965607321444233231990963358225855202657571473100017546258999036420666195293497977754348553457828049118794459557450464884475357731683915734283"
         and qx = "62592884013754034112825206027597928554311984942241711318728885464757042234347"
         and qy = "- 60875420154389695306957371077483671839376110677960154609584236780746737602524"])
    (simp_all add: curve_p_def)

lemma double_16G:
  "padd (Affine 104059883622109321374094289636044428849728529177856482232626205340719788190730 112122903140080327253741791678230372394936108416576609264408917599318947489825)
        (Affine 104059883622109321374094289636044428849728529177856482232626205340719788190730 112122903140080327253741791678230372394936108416576609264408917599318947489825) =
   Affine 95440839670107969455973995843666399663662641812074432045896568980475242364517 67400892360194400039319989411395972789004161889863182881857158544061243615929"
  by (rule padd_double_cert
      [where iv = "17825568012884182675766143213511682455505826626476410795439574664363245530263"
         and qi = "34521433180625660421763396295424319223055734503472022075016128777328762581923"
         and ry = "108453717042844459083912598347772836936602232167512654489360251190729060307987"
         and qr = "1"
         and l = "82569378594810154217025225069474391492135485767273845887727222209646907018229"
         and ql = "5000948866571090672701233924871451678891941566530190379816412951942783334290089493566204568334197603369500790849544971221912363620842420331959655316103217"
         and qx = "58878826061771752691852286988475417560995720098032826365926856916465662115328"
         and qy = "6146094330671766549285932848160789856273537286188792933824796515510264274721"])
    (simp_all add: curve_p_def)

lemma double_32G:
  "padd (Affine 95440839670107969455973995843666399663662641812074432045896568980475242364517 67400892360194400039319989411395972789004161889863182881857158544061243615929)
        (Affine 95440839670107969455973995843666399663662641812074432045896568980475242364517 67400892360194400039319989411395972789004161889863182881857158544061243615929) =
   Affine 86454928033100054822938644242727206101601557724291916072342392316125160730507 41929975541376036990359335647717381527212342035893043668288666074313354583455"
  by (rule padd_double_cert
      [where iv = "12786479899922343417991798164630903075627618206908979180411597188899718055589"
         and qi = "14885648252432036672729503433822769267986341015325311998365186909128224767447"
         and ry = "19009695483072604655068993814104037724738339114085801724256733080213652560195"
         and qr = "1"
         and l = "39652784492614148245445807815675849953445574802016701539438166329387790442180"
         and ql = "3017601368726764675686134925496190073852865071593673155908047191302485735686769659803256524654400835654250516636853683040751897459611783769100957739210141"
         and qx = "13579021920877334325267268641566465146793957563046999199116845853208378301493"
         and qy = "3077208641444209588408134848261726710674920027917994367788213825847051768432"])
    (simp_all add: curve_p_def)

lemma double_64G:
  "padd (Affine 86454928033100054822938644242727206101601557724291916072342392316125160730507 41929975541376036990359335647717381527212342035893043668288666074313354583455)
        (Affine 86454928033100054822938644242727206101601557724291916072342392316125160730507 41929975541376036990359335647717381527212342035893043668288666074313354583455) =
   Affine 23971227478092690611538379282579297124953800109492367109857348294863777014350 42342609885299334444880650568116455571250837701978463648617679521175848103706"
  by (rule padd_double_cert
      [where iv = "47518630023279931174649623558106216072802955186670440489970803158820291670810"
         and qi = "34414354344229556423385276614210913925995194925200919564283511006183014263973"
         and ry = "83859951082752073980718671295434763054424684071786087336577332148626709166910"
         and qr = "0"
         and l = "61220314857801869579268608616601817644882554966512523803381782535747617375238"
         and ql = "9202075311267328803912621674022571628621843515823617209807928852542466482956831589628926130569537471834521313765595752076079337236399123347554953285629864"
         and qx = "32367728883507836822497284596998425688289878801862375140240975144956800650560"
         and qy = "33035692219165814281270021810714938123166927047825445983336721588473737875035"])
    (simp_all add: curve_p_def)

lemma add_2G_128G:
  "padd (Affine 89565891926547004231252920425935692360644145829622209833684329913297188986597 12158399299693830322967808612713398636155367887041628176798871954788371653930)
        (Affine 23971227478092690611538379282579297124953800109492367109857348294863777014350 42342609885299334444880650568116455571250837701978463648617679521175848103706) =
   Affine 71399313078669323736839153632635091547116725378263694980262817026165186043096 179593823837196588405975400113484208972710106943832594511212919018539390569"
  by (rule padd_add_cert
      [where iv = "51576593302142288903899454366700496513955016595126624824599056140552089373177"
         and qi = "- 29217447869989167399037531635675787197761671677821799676075083385453986449440"
         and l = "45572584925982892857089927271194827101745532676398677410324609232877671953610"
         and ql = "13444776441759592283277976309220235130533305138024468751997747335792453381434"
         and qx = "17936117316092225177006187783060382036450405998667603482305713938616962056439"
         and qy = "7149866306174776597755727567588365092640939721321141220750256865558557965697"])
    (simp_all add: curve_p_def)

lemma getPublic_two:
  "getPublic 2 =
     Affine 89565891926547004231252920425935692360644145829622209833684329913297188986597
            12158399299693830322967808612713398636155367887041628176798871954788371653930"
  using double_G by (simp add: getPublic_def curve_g_def pmul_even pmul_one)

lemma pmul_2G_65:
  "pmul (Affine 89565891926547004231252920425935692360644145829622209833684329913297188986597
                12158399299693830322967808612713398636155367887041628176798871954788371653930) 65 =
   Affine 71399313078669323736839153632635091547116725378263694980262817026165186043096
          179593823837196588405975400113484208972710106943832594511212919018539390569"
  using double_2G double_4G double_8G double_16G double_32G double_64G add_2G_128G
  by (simp add: pmul_odd pmul_even pmul_one)

lemma pmul_G_130:
  "pmul curve_g 130 =
   Affine 71399313078669323736839153632635091547116725378263694980262817026165186043096
          179593823837196588405975400113484208972710106943832594511212919018539390569"
  using double_G pmul_2G_65 by (simp add: curve_g_def pmul_even)

lemma onCurve_2G:
  "onCurve 89565891926547004231252920425935692360644145829622209833684329913297188986597
           12158399299693830322967808612713398636155367887041628176798871954788371653930"
  by (rule onCurveI [where q = "6205104149957778589487396235541193951393828196855248032031163416175182021243218040470110748669501390267283622362861913779948971576605354293720525423994560"])
    (simp add: curve_p_def)


section \<open>The recipient resolver\<close>

lemma isRawPublicKey_test: "isRawPublicKey testPublicKey"
  by (simp add: isRawPublicKey_def testPublicKey_def isHex_def isHexDigit_def hexValue_def)

lemma BN_fromHex_test_x: "BN_fromHex (take 64 (drop 4 testPublicKey)) = Inr 31443513349195905792251645163896717927622835951835396947607110697021355022998"
  by (simp add: testPublicKey_def BN_fromHex_def hexValue_def)

lemma BN_fromHex_test_y: "BN_fromHex (drop 64 (drop 4 testPublicKey)) = Inr 104360743430335507110092186441140432713022156863585616134530115623718159413485"
  by (simp add: testPublicKey_def BN_fromHex_def hexValue_def)

lemma onCurve_test: "onCurve 31443513349195905792251645163896717927622835951835396947607110697021355022998 104360743430335507110092186441140432713022156863585616134530115623718159413485"
  by (rule onCurveI [where q = "268481464596100784346703886527509150172962736388987702775334095798108354891212088485706726756494314321169388400087190362016655191447820033950513108470698"]) (simp add: curve_p_def)

lemma pointFromPublicKey_test:
  "pointFromPublicKey testPublicKey =
     Inr (Affine 31443513349195905792251645163896717927622835951835396947607110697021355022998
                 104360743430335507110092186441140432713022156863585616134530115623718159413485)"
  using isRawPublicKey_test BN_fromHex_test_x BN_fromHex_test_y onCurve_test
  by (simp add: pointFromPublicKey_def)

lemma parsesAsPublicKey_test: "parsesAsPublicKey testPublicKey"
  by (simp add: parsesAsPublicKey_def pointFromPublicKey_test)

text \<open>
  C6. When the identifier parses as a raw uncompressed public key, \<^verbatim>\<open>lookupRecipient\<close>
  returns that key as the spending and as the viewing key if \<^verbatim>\<open>supportPubKey\<close> is
  set, and fails with \<open>UnsupportedIdentifier\<close> if it is not, whatever the provider
  would answer on the other resolution paths.
\<close>

theorem lookupRecipient_raw_public_key:
  "parsesAsPublicKey ident \<Longrightarrow>
   lookupRecipient prov ident opts =
     (if supportPubKey opts
      then Inr \<lparr> spendingPublicKey = ident, viewingPublicKey = ident \<rparr>
      else Inl UnsupportedIdentifier)"
proof -
  assume "parsesAsPublicKey ident"
  then obtain q where q: "pointFromPublicKey ident = Inr q"
    by (auto simp: parsesAsPublicKey_def split: sum.splits)
  then have "isRawPublicKey ident"
    by (auto simp: pointFromPublicKey_def split: if_splits)
  with q show ?thesis
    by (simp add: lookupRecipient_def)
qed

theorem lookupRecipient_raw_public_key_witness:
  "lookupRecipient noProvider testPublicKey
     \<lparr> advanced = False, supportPubKey = True, supportTxHash = False \<rparr> =
     Inr \<lparr> spendingPublicKey = testPublicKey, viewingPublicKey = testPublicKey \<rparr> \<and>
   lookupRecipient noProvider testPublicKey
     \<lparr> advanced = False, supportPubKey = False, supportTxHash = False \<rparr> =
     Inl UnsupportedIdentifier"
  using
    lookupRecipient_raw_public_key [OF parsesAsPublicKey_test, of noProvider
      "\<lparr> advanced = False, supportPubKey = True, supportTxHash = False \<rparr>"]
    lookupRecipient_raw_public_key [OF parsesAsPublicKey_test, of noProvider
      "\<lparr> advanced = False, supportPubKey = False, supportTxHash = False \<rparr>"]
  by simp


section \<open>The derivations of the sender and of the recipient\<close>

lemma BN_fromHex_2G:
  "BN_fromHex ''c6047f9441ed7d6d3045406e95c07cd85c778e4b8cef3ca7abac09b95c709ee5'' =
     Inr 89565891926547004231252920425935692360644145829622209833684329913297188986597"
  "BN_fromHex ''1ae168fea63dc339a3c58419466ceaeef7f632653266d0e1236431a950cfe52a'' =
     Inr 12158399299693830322967808612713398636155367887041628176798871954788371653930"
  by (simp_all add: BN_fromHex_def hexValue_def)

lemma keyFromPublic_2G:
  "keyFromPublic ''c6047f9441ed7d6d3045406e95c07cd85c778e4b8cef3ca7abac09b95c709ee5''
                 ''1ae168fea63dc339a3c58419466ceaeef7f632653266d0e1236431a950cfe52a'' =
   Inr (Affine 89565891926547004231252920425935692360644145829622209833684329913297188986597
               12158399299693830322967808612713398636155367887041628176798871954788371653930)"
proof -
  have "89565891926547004231252920425935692360644145829622209833684329913297188986597 mod curve_p =
        89565891926547004231252920425935692360644145829622209833684329913297188986597"
    by (rule mod_curve_p_small) (simp_all add: curve_p_def)
  moreover have
    "12158399299693830322967808612713398636155367887041628176798871954788371653930 mod curve_p =
     12158399299693830322967808612713398636155367887041628176798871954788371653930"
    by (rule mod_curve_p_small) (simp_all add: curve_p_def)
  ultimately show ?thesis
    by (simp add: keyFromPublic_def BN_fromHex_2G)
qed

lemma BN_toString16_2G:
  "BN_toString16 89565891926547004231252920425935692360644145829622209833684329913297188986597 =
     ''c6047f9441ed7d6d3045406e95c07cd85c778e4b8cef3ca7abac09b95c709ee5''"
  "BN_toString16 12158399299693830322967808612713398636155367887041628176798871954788371653930 =
     ''1ae168fea63dc339a3c58419466ceaeef7f632653266d0e1236431a950cfe52a''"
  by (simp_all add: BN_toString16_def hexDigits.simps hexDigit_def)

lemma BN_toString16_130G:
  "BN_toString16 71399313078669323736839153632635091547116725378263694980262817026165186043096 =
     ''9dda94404337db1474e67f1d7052f398a0e70ed205c5e94d6e731b06c6f51cd8''"
  "BN_toString16 179593823837196588405975400113484208972710106943832594511212919018539390569 =
     ''65a58128f755afae6fae38ed6d2ec4306a0a11fdd22b0d7d5fa49229d31669''"
  by (simp_all add: BN_toString16_def hexDigits.simps hexDigit_def)

lemma pad32ByteHex_examples:
  "pad32ByteHex ''c6047f9441ed7d6d3045406e95c07cd85c778e4b8cef3ca7abac09b95c709ee5'' =
     ''c6047f9441ed7d6d3045406e95c07cd85c778e4b8cef3ca7abac09b95c709ee5''"
  "pad32ByteHex ''1ae168fea63dc339a3c58419466ceaeef7f632653266d0e1236431a950cfe52a'' =
     ''1ae168fea63dc339a3c58419466ceaeef7f632653266d0e1236431a950cfe52a''"
  "pad32ByteHex ''9dda94404337db1474e67f1d7052f398a0e70ed205c5e94d6e731b06c6f51cd8'' =
     ''9dda94404337db1474e67f1d7052f398a0e70ed205c5e94d6e731b06c6f51cd8''"
  "pad32ByteHex ''65a58128f755afae6fae38ed6d2ec4306a0a11fdd22b0d7d5fa49229d31669'' =
     ''0065a58128f755afae6fae38ed6d2ec4306a0a11fdd22b0d7d5fa49229d31669''"
  by (simp_all add: pad32ByteHex_replicate numeral_2_eq_2)

lemma BN_fromHex_82: "BN_fromHex ''82'' = Inr 130"
  by (simp add: BN_fromHex_def hexValue_def)

lemma step5_example:
  "step5 H exampleReceiver ''41'' =
     Inr \<lparr> receiverPublicKeyX = ''c6047f9441ed7d6d3045406e95c07cd85c778e4b8cef3ca7abac09b95c709ee5'',
           receiverPublicKeyY = ''1ae168fea63dc339a3c58419466ceaeef7f632653266d0e1236431a950cfe52a'',
           stealthPublicKey =
             ''9dda94404337db1474e67f1d7052f398a0e70ed205c5e94d6e731b06c6f51cd80065a58128f755afae6fae38ed6d2ec4306a0a11fdd22b0d7d5fa49229d31669'',
           stealthAddress = addressOf H
             ''9dda94404337db1474e67f1d7052f398a0e70ed205c5e94d6e731b06c6f51cd80065a58128f755afae6fae38ed6d2ec4306a0a11fdd22b0d7d5fa49229d31669'' \<rparr>"
  using keyFromPublic_2G pmul_2G_65
  by (simp add: step5_def Let_def exampleReceiver_def point_mul_def BN_fromHex_41 getX_def getY_def
      BN_toString16_130G pad32ByteHex_examples)

lemma step6_example:
  "step6 H exampleReceiver
     ''c6047f9441ed7d6d3045406e95c07cd85c778e4b8cef3ca7abac09b95c709ee5''
     ''1ae168fea63dc339a3c58419466ceaeef7f632653266d0e1236431a950cfe52a'' ''41'' =
     Inr \<lparr> stealthPrivateKey = BigNumber ''0x82'',
           stealthPublicKey2 =
             ''9dda94404337db1474e67f1d7052f398a0e70ed205c5e94d6e731b06c6f51cd865a58128f755afae6fae38ed6d2ec4306a0a11fdd22b0d7d5fa49229d31669'',
           stealthAddress2 = addressOf H
             ''9dda94404337db1474e67f1d7052f398a0e70ed205c5e94d6e731b06c6f51cd865a58128f755afae6fae38ed6d2ec4306a0a11fdd22b0d7d5fa49229d31669'' \<rparr>"
  using keyFromPrivate_two getPublic_two pmul_G_130
  by (simp add: step6_def Let_def exampleReceiver_def getX_def getY_def BN_toString16_2G
      pad32ByteHex_examples stealthPrivateKeyOf_example point_mul_def BN_fromHex_82
      BN_toString16_130G)

lemma hashedBytes_lengths:
  "length (hashedBytes ''9dda94404337db1474e67f1d7052f398a0e70ed205c5e94d6e731b06c6f51cd80065a58128f755afae6fae38ed6d2ec4306a0a11fdd22b0d7d5fa49229d31669'') = 64"
  "length (hashedBytes ''9dda94404337db1474e67f1d7052f398a0e70ed205c5e94d6e731b06c6f51cd865a58128f755afae6fae38ed6d2ec4306a0a11fdd22b0d7d5fa49229d31669'') = 63"
  by (simp_all add: hashedBytes_def length_Buffer_fromHex isHex_def isHexDigit_def hexValue_def)

text \<open>
  C7. The recipient's derivation compares the published X and Y with the coordinates of
  the public point of the private key, each padded to 64 characters; when either differs
  the result is the error \<open>KeyMismatch\<close>, and a result with stealth key material
  exists only when both agree.
\<close>

theorem recipient_key_mismatch:
  "keyFromPrivate (drop 2 (privateKey receiver)) = Inr priv \<Longrightarrow>
   getPublic priv = Affine px py \<Longrightarrow>
   (pkX \<noteq> pad32ByteHex (BN_toString16 px) \<or> pkY \<noteq> pad32ByteHex (BN_toString16 py) \<longrightarrow>
      step6 H receiver pkX pkY randomValue = Inl KeyMismatch) \<and>
   (step6 H receiver pkX pkY randomValue = Inr res \<longrightarrow>
      pkX = pad32ByteHex (BN_toString16 px) \<and> pkY = pad32ByteHex (BN_toString16 py))"
  by (auto simp: step6_def getX_def getY_def)

theorem recipient_key_mismatch_witness:
  "step6 (\<lambda>msg. msg) exampleReceiver
     ''79be667ef9dcbbac55a06295ce870b07029bfcdb2dce28d959f2815b16f81798''
     ''1ae168fea63dc339a3c58419466ceaeef7f632653266d0e1236431a950cfe52a'' ''41'' =
     Inl KeyMismatch"
proof -
  have k: "keyFromPrivate (drop 2 (privateKey exampleReceiver)) = Inr 2"
    using keyFromPrivate_two by (simp add: exampleReceiver_def)
  from recipient_key_mismatch [OF k getPublic_two,
      of "''79be667ef9dcbbac55a06295ce870b07029bfcdb2dce28d959f2815b16f81798''"
         "''1ae168fea63dc339a3c58419466ceaeef7f632653266d0e1236431a950cfe52a''"
         "\<lambda>msg. msg" "''41''"]
  show ?thesis
    by (simp add: BN_toString16_2G pad32ByteHex_examples)
qed

text \<open>
  C1, at the example input. The sender hashes the 64 bytes of the two padded coordinates;
  the recipient hashes the coordinates as \<^verbatim>\<open>toString('hex')\<close> prints them, without
  padding: here Y has 62 characters, so 63 bytes are hashed, and the two addresses are
  the addresses of two different byte strings.
\<close>

theorem stealth_addresses_at_example:
  "step3 exampleRandomArray = Inr ''41'' \<and>
   step5 H exampleReceiver ''41'' =
     Inr \<lparr> receiverPublicKeyX = ''c6047f9441ed7d6d3045406e95c07cd85c778e4b8cef3ca7abac09b95c709ee5'',
           receiverPublicKeyY = ''1ae168fea63dc339a3c58419466ceaeef7f632653266d0e1236431a950cfe52a'',
           stealthPublicKey =
             ''9dda94404337db1474e67f1d7052f398a0e70ed205c5e94d6e731b06c6f51cd80065a58128f755afae6fae38ed6d2ec4306a0a11fdd22b0d7d5fa49229d31669'',
           stealthAddress = addressOf H
             ''9dda94404337db1474e67f1d7052f398a0e70ed205c5e94d6e731b06c6f51cd80065a58128f755afae6fae38ed6d2ec4306a0a11fdd22b0d7d5fa49229d31669'' \<rparr> \<and>
   step6 H exampleReceiver
     ''c6047f9441ed7d6d3045406e95c07cd85c778e4b8cef3ca7abac09b95c709ee5''
     ''1ae168fea63dc339a3c58419466ceaeef7f632653266d0e1236431a950cfe52a'' ''41'' =
     Inr \<lparr> stealthPrivateKey = BigNumber ''0x82'',
           stealthPublicKey2 =
             ''9dda94404337db1474e67f1d7052f398a0e70ed205c5e94d6e731b06c6f51cd865a58128f755afae6fae38ed6d2ec4306a0a11fdd22b0d7d5fa49229d31669'',
           stealthAddress2 = addressOf H
             ''9dda94404337db1474e67f1d7052f398a0e70ed205c5e94d6e731b06c6f51cd865a58128f755afae6fae38ed6d2ec4306a0a11fdd22b0d7d5fa49229d31669'' \<rparr> \<and>
   length (hashedBytes ''9dda94404337db1474e67f1d7052f398a0e70ed205c5e94d6e731b06c6f51cd80065a58128f755afae6fae38ed6d2ec4306a0a11fdd22b0d7d5fa49229d31669'') = 64 \<and>
   length (hashedBytes ''9dda94404337db1474e67f1d7052f398a0e70ed205c5e94d6e731b06c6f51cd865a58128f755afae6fae38ed6d2ec4306a0a11fdd22b0d7d5fa49229d31669'') = 63 \<and>
   hashedBytes ''9dda94404337db1474e67f1d7052f398a0e70ed205c5e94d6e731b06c6f51cd80065a58128f755afae6fae38ed6d2ec4306a0a11fdd22b0d7d5fa49229d31669'' \<noteq>
   hashedBytes ''9dda94404337db1474e67f1d7052f398a0e70ed205c5e94d6e731b06c6f51cd865a58128f755afae6fae38ed6d2ec4306a0a11fdd22b0d7d5fa49229d31669''"
proof -
  have "step3 exampleRandomArray = Inr ''41''"
    using step3_example by (simp add: exampleRandomArray_def)
  moreover have
    "hashedBytes ''9dda94404337db1474e67f1d7052f398a0e70ed205c5e94d6e731b06c6f51cd80065a58128f755afae6fae38ed6d2ec4306a0a11fdd22b0d7d5fa49229d31669'' \<noteq>
     hashedBytes ''9dda94404337db1474e67f1d7052f398a0e70ed205c5e94d6e731b06c6f51cd865a58128f755afae6fae38ed6d2ec4306a0a11fdd22b0d7d5fa49229d31669''"
    using hashedBytes_lengths by (metis numeral_eq_iff semiring_norm(88) num.inject)
  ultimately show ?thesis
    using step5_example [of H] step6_example [of H] hashedBytes_lengths by simp
qed

theorem stealth_addresses_at_example_witness:
  "step6 (\<lambda>msg. msg) exampleReceiver
     ''c6047f9441ed7d6d3045406e95c07cd85c778e4b8cef3ca7abac09b95c709ee5''
     ''1ae168fea63dc339a3c58419466ceaeef7f632653266d0e1236431a950cfe52a'' ''41'' =
     Inr \<lparr> stealthPrivateKey = BigNumber ''0x82'',
           stealthPublicKey2 =
             ''9dda94404337db1474e67f1d7052f398a0e70ed205c5e94d6e731b06c6f51cd865a58128f755afae6fae38ed6d2ec4306a0a11fdd22b0d7d5fa49229d31669'',
           stealthAddress2 = addressOf (\<lambda>msg. msg)
             ''9dda94404337db1474e67f1d7052f398a0e70ed205c5e94d6e731b06c6f51cd865a58128f755afae6fae38ed6d2ec4306a0a11fdd22b0d7d5fa49229d31669'' \<rparr> \<and>
   length (hashedBytes ''9dda94404337db1474e67f1d7052f398a0e70ed205c5e94d6e731b06c6f51cd865a58128f755afae6fae38ed6d2ec4306a0a11fdd22b0d7d5fa49229d31669'') = 63"
  using stealth_addresses_at_example [of "\<lambda>msg. msg"] by simp

section \<open>A public key that is not on the curve\<close>





















end
